theory Spec2Isabelle
  imports Complex_Main "HOL-Library.Char_ord" "HOL-Library.List_Lexorder"
    "HOL-Library.Sublist" "HOL-Library.AList"
begin

section \<open>Errors and the plotting surface\<close>

text \<open>
  Both scripts draw through \<^verbatim>\<open>matplotlib.pyplot\<close>, whose state is global: a current
  figure with current axes. The surface records what was drawn on the current axes since
  they were last cleared, the figure-level title, the style sheets applied, the frames
  written to disk (each with a snapshot of the axes at that moment) and the frames
  displayed. Every Python exception is a value of \<open>error\<close>. An expression that can
  raise has a value in \<open>error + 'a\<close>; a procedure that works on the surface ends in an
  \<open>outcome\<close>, which keeps the surface as the exception left it. A string is the list
  of its code points, all below 256.
\<close>

datatype error =
    NameError string
  | ValueError
  | KeyError
  | IndexError
  | AttributeError
  | TypeError
  | MaskError
  | FileNotFoundError
  | SystemExit

text \<open>
  A coordinate handed to \<^verbatim>\<open>plt.plot\<close>: a number, a gap (a masked entry of a masked
  array, or NaN: matplotlib shows neither) or a string (a categorical value).
\<close>

datatype coord = Num real | Gap | Cat string

record lineprops =
  fmt :: "string option"
  alpha :: "real option"
  linewidth :: "real option"
  linestyle :: "string option"
  marker :: "string option"
  colour :: "(real \<times> real \<times> real) option"
  label :: "string option"

datatype pltcall =
    Axis "real list"
  | SetAspect string
  | SetXTicks "int list"
  | SetYTicks "int list"
  | Scatter real real string string "real option"
  | Quiver real real real real string
  | Line "coord list" "coord list" lineprops
  | Xlabel string
  | Ylabel string
  | Title string
  | Legend

record surface =
  axes :: "pltcall list"
  figtitle :: "string option"
  styles :: "string list"
  files :: "(string \<times> pltcall list) list"
  shown :: "pltcall list list"

definition draw :: "pltcall \<Rightarrow> surface \<Rightarrow> surface" where
  "draw c s = s\<lparr>axes := axes s @ [c]\<rparr>"

definition plt_suptitle :: "string \<Rightarrow> surface \<Rightarrow> surface" where
  "plt_suptitle str s = s\<lparr>figtitle := Some str\<rparr>"

definition plt_style_use :: "string \<Rightarrow> surface \<Rightarrow> surface" where
  "plt_style_use str s = s\<lparr>styles := styles s @ [str]\<rparr>"

text \<open>
  \<^verbatim>\<open>plt.savefig(path)\<close> first renders the figure and then opens the file. Rendering
  lays out every text of the figure (the figure's title, the title and the labels of the
  axes, and the labels of the lines once a legend was asked for) and raises ValueError
  on a text whose part between dollar signs the math-text parser rejects, an unknown
  command for one. Opening
  the file raises what the operating system reports, FileNotFoundError for a directory
  that does not exist. Neither the parser nor the file system is part of the sources:
  both are parameters.
\<close>

record backend =
  renders :: "string \<Rightarrow> bool"
  write_error :: "string \<Rightarrow> error option"

fun call_texts :: "pltcall \<Rightarrow> string list" where
  "call_texts (Xlabel t) = [t]"
| "call_texts (Ylabel t) = [t]"
| "call_texts (Title t) = [t]"
| "call_texts _ = []"

fun line_label :: "pltcall \<Rightarrow> string list" where
  "line_label (Line xs ys pr) = (case label pr of None \<Rightarrow> [] | Some t \<Rightarrow> [t])"
| "line_label _ = []"

definition figure_texts :: "surface \<Rightarrow> string list" where
  "figure_texts s =
     (case figtitle s of None \<Rightarrow> [] | Some t \<Rightarrow> [t])
     @ concat (map call_texts (axes s))
     @ (if Legend \<in> set (axes s) then concat (map line_label (axes s)) else [])"

datatype 's outcome = Done 's | Raise error 's

definition plt_savefig :: "backend \<Rightarrow> string \<Rightarrow> surface \<Rightarrow> surface outcome" where
  "plt_savefig bk p s =
     (if list_ex (\<lambda>t. \<not> renders bk t) (figure_texts s) then Raise ValueError s
      else case write_error bk p of
             Some e \<Rightarrow> Raise e s
           | None \<Rightarrow> Done (s\<lparr>files := files s @ [(p, axes s)]\<rparr>))"

definition plt_show :: "surface \<Rightarrow> surface" where
  "plt_show s = s\<lparr>shown := shown s @ [axes s]\<rparr>"

text \<open>\<^verbatim>\<open>plt.close()\<close> destroys the current figure; the next call makes a fresh one.\<close>

definition plt_close :: "surface \<Rightarrow> surface" where
  "plt_close s = s\<lparr>axes := [], figtitle := None\<rparr>"

text \<open>\<^verbatim>\<open>plt.cla()\<close> clears the current axes and leaves the figure's own title alone.\<close>

definition plt_cla :: "surface \<Rightarrow> surface" where
  "plt_cla s = s\<lparr>axes := []\<rparr>"

definition seq :: "'s outcome \<Rightarrow> ('s \<Rightarrow> 's outcome) \<Rightarrow> 's outcome" where
  "seq m f = (case m of Done s \<Rightarrow> f s | Raise e s \<Rightarrow> Raise e s)"

definition need :: "error + 'a \<Rightarrow> 's \<Rightarrow> ('a \<Rightarrow> 's outcome) \<Rightarrow> 's outcome" where
  "need v s f = (case v of Inl e \<Rightarrow> Raise e s | Inr x \<Rightarrow> f x)"

fun loop :: "'a list \<Rightarrow> ('a \<Rightarrow> 's \<Rightarrow> 's outcome) \<Rightarrow> 's \<Rightarrow> 's outcome" where
  "loop [] f s = Done s"
| "loop (x # xs) f s = seq (f x s) (loop xs f)"

text \<open>The end of every frame: \<^verbatim>\<open>if save: plt.savefig(...); plt.close()\<close>.\<close>

definition save_close :: "backend \<Rightarrow> bool \<Rightarrow> string \<Rightarrow> surface \<Rightarrow> surface outcome" where
  "save_close bk save p s =
     (if save then seq (plt_savefig bk p s) (\<lambda>s'. Done (plt_close s')) else Done s)"

text \<open>\<^verbatim>\<open>plt.plot(x, y, ...)\<close> raises ValueError when x and y differ in length.\<close>

definition plt_plot ::
  "coord list \<Rightarrow> coord list \<Rightarrow> lineprops \<Rightarrow> surface \<Rightarrow> surface outcome" where
  "plt_plot xs ys pr s =
     (if length xs \<noteq> length ys then Raise ValueError s else Done (draw (Line xs ys pr) s))"

definition noprops :: lineprops where
  "noprops = \<lparr>fmt = None, alpha = None, linewidth = None, linestyle = None,
              marker = None, colour = None, label = None\<rparr>"

definition bnd :: "error + 'a \<Rightarrow> ('a \<Rightarrow> error + 'b) \<Rightarrow> error + 'b" where
  "bnd m f = (case m of Inl e \<Rightarrow> Inl e | Inr x \<Rightarrow> f x)"

text \<open>Decimal rendering of an integer, as \<^verbatim>\<open>str(t)\<close> and \<^verbatim>\<open>f"{t}"\<close> give it.\<close>

function str_nat :: "nat \<Rightarrow> string" where
  "str_nat n =
     (if n < 10 then [char_of (48 + n)]
      else str_nat (n div 10) @ [char_of (48 + n mod 10)])"
  by pat_completeness auto
termination
  by (relation "measure id") auto

declare str_nat.simps [simp del]

definition str_int :: "int \<Rightarrow> string" where
  "str_int i = (if i < 0 then CHR ''-'' # str_nat (nat (- i)) else str_nat (nat i))"

section \<open>util/plot.py\<close>

subsection \<open>Array helpers\<close>

text \<open>Python's \<^verbatim>\<open>int(l)\<close> truncates towards zero; \<^verbatim>\<open>range(k)\<close> is empty for k \<le> 0.\<close>

definition py_int :: "real \<Rightarrow> int" where
  "py_int l = (if 0 \<le> l then \<lfloor>l\<rfloor> else \<lceil>l\<rceil>)"

definition py_range :: "int \<Rightarrow> int list" where
  "py_range k = [0..k - 1]"

text \<open>A slice \<^verbatim>\<open>xs[a:b]\<close>: negative bounds count from the end, all bounds are clamped.\<close>

definition slice_idx :: "int \<Rightarrow> nat \<Rightarrow> nat" where
  "slice_idx i n = (if i < 0 then nat (max (i + int n) 0) else min (nat i) n)"

definition pyslice :: "int \<Rightarrow> int \<Rightarrow> 'a list \<Rightarrow> 'a list" where
  "pyslice a b xs =
     (let n = length xs; lo = slice_idx a n; hi = slice_idx b n
      in take (hi - lo) (drop lo xs))"

fun np_diff :: "real list \<Rightarrow> real list" where
  "np_diff (a # b # xs) = (b - a) # np_diff (b # xs)"
| "np_diff _ = []"

text \<open>
  \<^verbatim>\<open>np.ma.MaskedArray(data, mask)\<close>: a mask of the data's size masks entry by entry, a
  mask of one element is resized to the data (so it covers empty data too), any other
  mask raises.
\<close>

definition masked_array :: "real list \<Rightarrow> bool list \<Rightarrow> error + coord list" where
  "masked_array xs m =
     (if length m = length xs then Inr (map (\<lambda>(x, b). if b then Gap else Num x) (zip xs m))
      else if length m = 1 then Inr (map (\<lambda>x. if hd m then Gap else Num x) xs)
      else Inl MaskError)"

subsection \<open>Drawing primitives\<close>

definition prepare_state_plot :: "real \<Rightarrow> surface \<Rightarrow> surface" where
  "prepare_state_plot l s =
     (let s1 = draw (Axis [0, l, 0, l]) s;
          s2 = plt_style_use ''dark_background'' s1;
          s3 = draw (SetAspect ''equal'') s2
      in if l < 20
         then draw (SetYTicks (py_range (py_int l + 1)))
                (draw (SetXTicks (py_range (py_int l + 1))) s3)
         else s3)"

definition plot_particle :: "real \<times> real \<Rightarrow> surface \<Rightarrow> surface" where
  "plot_particle X s = (case X of (x, y) \<Rightarrow> draw (Scatter x y ''w'' ''.'' None) s)"

definition plot_vector :: "real \<times> real \<Rightarrow> real \<times> real \<Rightarrow> string \<Rightarrow> surface \<Rightarrow> surface" where
  "plot_vector X V col s =
     (case X of (x, y) \<Rightarrow> case V of (vx, vy) \<Rightarrow> draw (Quiver x y vx vy col) s)"

text \<open>
  \<^verbatim>\<open>ang_to_vec\<close> comes from \<^verbatim>\<open>util.geometry\<close>, which is not part of the sources at hand;
  it is a parameter of every function that reaches it.
\<close>

definition plot_vector_ang ::
  "(real \<Rightarrow> real \<times> real) \<Rightarrow> real \<times> real \<Rightarrow> real \<Rightarrow> real \<Rightarrow> string \<Rightarrow> surface \<Rightarrow> surface" where
  "plot_vector_ang ang_to_vec X a v col s =
     (case X of (x, y) \<Rightarrow>
        case ang_to_vec a of (ux, uy) \<Rightarrow> draw (Quiver x y (ux * v) (uy * v) col) s)"

definition plot_oscillator ::
  "real \<times> real \<Rightarrow> real \<Rightarrow> real \<Rightarrow> real \<Rightarrow> bool \<Rightarrow> string \<Rightarrow> string \<Rightarrow> surface \<Rightarrow> surface" where
  "plot_oscillator X p f dt blink col1 col2 s =
     (case X of (x, y) \<Rightarrow>
        let s1 =
          (if blink then
             (if 0 \<le> p \<and> p \<le> 2 * pi * f * dt
              then draw (Scatter x y ''y'' ''o'' None) s else s)
           else
             (let p1 = (if p > pi then 2 * pi - p else if p < 0 then \<bar>p\<bar> else p);
                  p2 = p1 / pi
              in draw (Scatter x y col1 ''o'' (Some p2)) s))
        in draw (Scatter x y col2 ''.'' None) s1)"

definition jump_mask :: "real \<Rightarrow> real list \<Rightarrow> bool list" where
  "jump_mask l xs = map (\<lambda>d. d \<ge> l - 1) (map abs (np_diff xs)) @ [False]"

definition plot_trajectory ::
  "int \<Rightarrow> (real \<times> real) list \<Rightarrow> real \<Rightarrow> string \<Rightarrow> int \<Rightarrow> surface \<Rightarrow> surface outcome" where
  "plot_trajectory t Xt0 l col dt s =
     (let Xt = (if t > dt then pyslice (t - dt - 1) (t + 1) Xt0 else pyslice 0 (t + 1) Xt0)
      in if t > 0 then
           need (masked_array (map fst Xt) (jump_mask l (map fst Xt))) s (\<lambda>mask_Xt0.
           need (masked_array (map snd Xt) (jump_mask l (map snd Xt))) s (\<lambda>mask_Xt1.
             let al = (if col = ''grey'' then 0.3 else 1)
             in plt_plot mask_Xt0 mask_Xt1 (noprops\<lparr>fmt := Some col, alpha := Some al\<rparr>) s))
         else Done s)"

text \<open>
  What a line through masked data shows: matplotlib joins two consecutive points only
  when neither of them is masked in either coordinate.
\<close>

fun segments ::
  "coord list \<Rightarrow> coord list \<Rightarrow> ((real \<times> real) \<times> (real \<times> real)) list" where
  "segments (a # b # xs) (c # d # ys) =
     (case (a, c, b, d) of
        (Num x1, Num y1, Num x2, Num y2) \<Rightarrow> [((x1, y1), (x2, y2))]
      | _ \<Rightarrow> [])
     @ segments (b # xs) (d # ys)"
| "segments _ _ = []"

fun drawn_segments :: "pltcall \<Rightarrow> ((real \<times> real) \<times> (real \<times> real)) list" where
  "drawn_segments (Line xs ys pr) = segments xs ys"
| "drawn_segments _ = []"

subsection \<open>Frames\<close>

text \<open>
  \<^verbatim>\<open>from util.geometry import *\<close> brings that module's public names into the module.
  The module is not among the sources at hand, so what it exports is a parameter: the
  three functions the plotting code calls, and the two module-level names \<^verbatim>\<open>V\<close> and
  \<^verbatim>\<open>sumvec\<close> that \<^verbatim>\<open>plot_state\<close> reads although they are neither its parameters nor
  its locals (\<open>None\<close> when the module exports no such name).
\<close>

record 'b geometry =
  ang_to_vec :: "real \<Rightarrow> real \<times> real"
  sum_vec_ang :: "real list \<Rightarrow> real list \<Rightarrow> real \<times> real"
  centre_of_mass :: "(real \<times> real) list \<Rightarrow> real \<Rightarrow> 'b \<Rightarrow> real \<times> real"
  glob_V :: "real list option"
  glob_sumvec :: "bool option"

text \<open>Indexing \<^verbatim>\<open>xs[i]\<close>: a negative index counts from the end, out of range raises.\<close>

definition idx :: "'a list \<Rightarrow> int \<Rightarrow> error + 'a" where
  "idx xs i =
     (if 0 \<le> i \<and> i < int (length xs) then Inr (xs ! nat i)
      else if i < 0 \<and> - int (length xs) \<le> i then Inr (xs ! nat (int (length xs) + i))
      else Inl IndexError)"

fun for_each :: "'a list \<Rightarrow> ('a \<Rightarrow> 's \<Rightarrow> error + 's) \<Rightarrow> 's \<Rightarrow> error + 's" where
  "for_each [] f s = Inr s"
| "for_each (x # xs) f s = bnd (f x s) (for_each xs f)"

text \<open>
  The yellow line of the normalised velocity sum. With no particle the division by
  \<open>n\<close> gives NaN in numpy, which a line shows as a gap.
\<close>

definition sum_line :: "real \<times> real \<Rightarrow> nat \<Rightarrow> real \<Rightarrow> surface \<Rightarrow> surface outcome" where
  "sum_line S0 n l s =
     (let Sx = (if n = 0 then Gap else Num (fst S0 / real n + l / 2));
          Sy = (if n = 0 then Gap else Num (snd S0 / real n + l / 2))
      in plt_plot [Num (l / 2), Sx] [Num (l / 2), Sy]
           (noprops\<lparr>fmt := Some ''yellow'', linewidth := Some 3\<rparr>) s)"

definition plot_state ::
  "backend \<Rightarrow> 'b geometry \<Rightarrow> int \<Rightarrow> (real \<times> real) list \<Rightarrow> real list \<Rightarrow> 'v \<Rightarrow> real \<Rightarrow>
   string \<Rightarrow> string \<Rightarrow> string \<Rightarrow> bool \<Rightarrow> bool \<Rightarrow> surface \<Rightarrow> surface outcome" where
  "plot_state bk g t X A v l title subtitle path save show s =
     (let n = length X;
          s1 = prepare_state_plot l s
      in
      seq (loop [0..<n] (\<lambda>i s.
             need (idx A (int i)) s (\<lambda>a.
             case glob_V g of
               None \<Rightarrow> Raise (NameError ''V'') s
             | Some V \<Rightarrow>
                 need (idx V (int i)) s (\<lambda>vi.
                   Done (plot_vector_ang (ang_to_vec g) (X ! i) a vi ''w'' s)))) s1) (\<lambda>s2.
      seq (case glob_sumvec g of
             None \<Rightarrow> Raise (NameError ''sumvec'') s2
           | Some sumvec \<Rightarrow>
               if sumvec then
                 (case glob_V g of
                    None \<Rightarrow> Raise (NameError ''V'') s2
                  | Some V \<Rightarrow> sum_line (sum_vec_ang g A V) n l s2)
               else Done s2) (\<lambda>s3.
        let s4 = draw (Xlabel (str_int t)) s3;
            s5 = draw (Title subtitle) s4;
            s6 = plt_suptitle title s5;
            s7 = (if show then plt_show s6 else s6)
        in seq (save_close bk save (path @ ''/'' @ str_int t @ ''.jpg'') s7) (\<lambda>s8.
           Done (plt_cla s8)))))"

definition plot_state_vectors ::
  "backend \<Rightarrow> 'b geometry \<Rightarrow> int \<Rightarrow> (real \<times> real) list \<Rightarrow> real list \<Rightarrow> real list \<Rightarrow> real \<Rightarrow>
   string \<Rightarrow> string \<Rightarrow> string \<Rightarrow> bool \<Rightarrow> bool \<Rightarrow> bool \<Rightarrow> surface \<Rightarrow> surface outcome" where
  "plot_state_vectors bk g t X A V l title subtitle path sumvec save show s =
     (let n = length X;
          s1 = prepare_state_plot l s
      in
      seq (loop [0..<n] (\<lambda>i s.
             need (idx A (int i)) s (\<lambda>a.
             need (idx V (int i)) s (\<lambda>vi.
               Done (plot_vector_ang (ang_to_vec g) (X ! i) a vi ''w'' s)))) s1) (\<lambda>s2.
      seq (if sumvec then sum_line (sum_vec_ang g A V) n l s2 else Done s2) (\<lambda>s3.
        let s4 = draw (Xlabel (str_int t)) s3;
            s5 = draw (Title subtitle) s4;
            s6 = plt_suptitle title s5;
            s7 = (if show then plt_show s6 else s6)
        in seq (save_close bk save (path @ ''/'' @ str_int t @ ''.jpg'') s7) (\<lambda>s8.
           Done (plt_cla s8)))))"

text \<open>
  An array of shape (T, N, 2) is the list of its T frames, each a list of N points, with
  N kept beside it since a numpy array has its shape even when T = 0.
\<close>

record array3 =
  npart :: nat
  frames :: "(real \<times> real) list list"

definition column :: "array3 \<Rightarrow> nat \<Rightarrow> (real \<times> real) list" where
  "column Xt i = map (\<lambda>fr. fr ! i) (frames Xt)"

definition plot_state_particles_trajectories ::
  "backend \<Rightarrow> 'b geometry \<Rightarrow> int \<Rightarrow> array3 \<Rightarrow> real \<Rightarrow> 'b \<Rightarrow> string \<Rightarrow> string \<Rightarrow> string \<Rightarrow>
   bool \<Rightarrow> bool \<Rightarrow> bool \<Rightarrow> surface \<Rightarrow> surface outcome" where
  "plot_state_particles_trajectories bk g t Xt l topology title subtitle path cmass save show s
     =
     (let n = npart Xt;
          s1 = prepare_state_plot l s
      in
      seq (loop [0..<n] (\<lambda>i s. plot_trajectory t (column Xt i) l ''grey'' 20 s) s1) (\<lambda>s2.
      seq (loop [0..<n] (\<lambda>i s.
             need (idx (frames Xt) t) s (\<lambda>fr. Done (plot_particle (fr ! i) s))) s2) (\<lambda>s3.
      seq (if cmass then
             (let M = map (\<lambda>X. centre_of_mass g X l topology) (frames Xt)
              in plot_trajectory t M l ''yellow'' 20 s3)
           else Done s3) (\<lambda>s4.
        let s5 = draw (Xlabel (str_int t)) s4;
            s6 = draw (Title subtitle) s5;
            s7 = plt_suptitle title s6;
            s8 = (if show then plt_show s7 else s7)
        in seq (save_close bk save (path @ ''/'' @ str_int t @ ''.jpg'') s8) (\<lambda>s9.
           Done (plt_cla s9))))))"

definition plot_state_oscillators ::
  "backend \<Rightarrow> int \<Rightarrow> (real \<times> real) list \<Rightarrow> real list \<Rightarrow> real list \<Rightarrow> real \<Rightarrow> real \<Rightarrow>
   string \<Rightarrow> string \<Rightarrow> string \<Rightarrow> bool \<Rightarrow> bool \<Rightarrow> surface \<Rightarrow> surface outcome" where
  "plot_state_oscillators bk t X F P dt l title subtitle path save show s =
     (let n = length X;
          s1 = prepare_state_plot l s
      in
      seq (loop [0..<n] (\<lambda>i s.
             need (idx P (int i)) s (\<lambda>p.
             need (idx F (int i)) s (\<lambda>f.
               Done (plot_oscillator (X ! i) p f dt False ''y'' ''g'' s)))) s1) (\<lambda>s2.
        let s3 = draw (Xlabel (str_int t)) s2;
            s4 = draw (Title subtitle) s3;
            s5 = plt_suptitle title s4;
            s6 = (if show then plt_show s5 else s5)
        in seq (save_close bk save (path @ ''/'' @ str_int t @ ''.jpg'') s6) (\<lambda>s7.
           Done (plt_cla s7))))"

definition plot_trajectories ::
  "backend \<Rightarrow> array3 \<Rightarrow> (real \<times> real) list \<Rightarrow> real \<Rightarrow> string \<Rightarrow> string \<Rightarrow> string \<Rightarrow> string \<Rightarrow>
   bool \<Rightarrow> bool \<Rightarrow> surface \<Rightarrow> surface outcome" where
  "plot_trajectories bk X M l name title suptitle path save show s =
     (let T = int (length (frames X));
          N = npart X;
          s1 = plt_cla s
      in
      seq (loop [0..<N] (\<lambda>i s. plot_trajectory T (column X i) l ''grey'' T s) s1) (\<lambda>s2.
      seq (plot_trajectory T M l ''r'' T s2) (\<lambda>s3.
        let s4 = draw (Title title) s3;
            s5 = plt_suptitle suptitle s4;
            s6 = (if show then plt_show s5 else s5)
        in seq (save_close bk save (path @ ''/trajectories_'' @ name @ ''.png'') s6) (\<lambda>s7.
           Done (plt_cla s7)))))"

definition empty_surface :: surface where
  "empty_surface = \<lparr>axes = [], figtitle = None, styles = [], files = [], shown = []\<rparr>"

section \<open>analysis/plot\_aggregate.py\<close>

subsection \<open>Data\<close>

text \<open>
  A float value is a real or NaN (\<open>None\<close>): \<^verbatim>\<open>np.mean\<close> of an empty array is NaN, and
  NaN goes through every sum and quotient. Rounding is not modelled.
\<close>

type_synonym fval = "real option"

definition fadd :: "fval \<Rightarrow> fval \<Rightarrow> fval" where
  "fadd a b = (case (a, b) of (Some x, Some y) \<Rightarrow> Some (x + y) | _ \<Rightarrow> None)"

text \<open>The divisor is a count of experiments, at least one wherever the code divides.\<close>

definition fdiv :: "fval \<Rightarrow> int \<Rightarrow> fval" where
  "fdiv a c = (case a of Some x \<Rightarrow> Some (x / real_of_int c) | None \<Rightarrow> None)"

definition np_mean :: "real list \<Rightarrow> fval" where
  "np_mean xs = (if xs = [] then None else Some (sum_list xs / real (length xs)))"

text \<open>
  A dictionary keeps its keys in insertion order: an association list with distinct
  keys, \<open>AList.update\<close> replacing a value in place or appending a new key.
  The statistics of one experiment map a name to the elements of an array.
\<close>

type_synonym sdict = "(string \<times> real list) list"

definition lookup :: "('k \<times> 'v) list \<Rightarrow> 'k \<Rightarrow> error + 'v" where
  "lookup d k = (case map_of d k of None \<Rightarrow> Inl KeyError | Some v \<Rightarrow> Inr v)"

definition dict_union :: "('k \<times> 'v) list \<Rightarrow> ('k \<times> 'v) list \<Rightarrow> ('k \<times> 'v) list" where
  "dict_union d e = foldl (\<lambda>acc (k, v). AList.update k v acc) d e"

text \<open>
  The nested result: a key is a parameter value or a statistic's name, a node is a
  number or a dictionary.
\<close>

datatype key = PKey real | SKey string

datatype ndict = Val fval | Dict "(key \<times> ndict) list"

text \<open>
  \<^verbatim>\<open>FlockModel\<close> is not among the sources at hand. The aggregator reads a model's
  parameters, its bounds and the two trajectories \<^verbatim>\<open>traj['X']\<close> (shape (T, N, D), here
  the list of its T timepoints with N beside it) and \<^verbatim>\<open>traj['A']\<close>.
\<close>

record ('x, 'a, 'b) flock_model =
  params :: "(string \<times> real) list"
  traj_n :: nat
  traj_X :: "'x list"
  traj_A :: "'a list"
  bounds :: 'b

text \<open>
  \<^verbatim>\<open>analysis.stats\<close> and \<^verbatim>\<open>analysis.emergence_calculator\<close> are not among the sources at
  hand either: the four functions called are parameters, each free to raise. The size
  of the world handed to \<^verbatim>\<open>process_space\<close> is \<open>None\<close> where \<^verbatim>\<open>np.sqrt\<close> gives NaN.
\<close>

record ('x, 'a, 'b, 'f) analysis =
  process_space :: "'x list \<Rightarrow> real option \<Rightarrow> 'b \<Rightarrow> error + sdict"
  process_angles :: "'a list \<Rightarrow> real \<Rightarrow> error + sdict"
  em_format :: "'x list \<Rightarrow> error + 'f"
  emergence_psi :: "'f \<Rightarrow> real list \<Rightarrow> error + real list"

definition labels :: "(string \<times> string) list" where
  "labels =
     [(''avg_abs_vel'',
        ''$'' @ [CHR 0x5C] @ ''frac{1}{N v}  '' @ [CHR 0x5C] @ ''sum_i^N ''
          @ [CHR 0x5C] @ ''mathbf{v}_{X_i}$''),
      (''std_angle'', ''$'' @ [CHR 0x5C] @ ''sigma_{'' @ [CHR 0x5C] @ ''theta}$''),
      (''std_dist_cmass'', ''$'' @ [CHR 0x5C] @ ''sigma_{X_M}$''),
      (''psi_cmass'', ''$'' @ [CHR 0x5C] @ ''psi_{x_M}$'')]"

definition titles :: "(string \<times> string) list" where
  "titles =
     [(''avg_abs_vel'', ''Absolute average normalised velocity''),
      (''std_angle'', ''Standard deviation of particle direction''),
      (''std_dist_cmass'', ''Standard deviation of distance from centre of mass''),
      (''psi_cmass'', ''Emergence $'' @ [CHR 0x5C] @ ''psi$ for centre of mass'')]"

subsection \<open>Strings\<close>

fun split_on :: "char \<Rightarrow> string \<Rightarrow> string list" where
  "split_on c [] = [[]]"
| "split_on c (x # xs) =
     (if x = c then [] # split_on c xs
      else (x # hd (split_on c xs)) # tl (split_on c xs))"

text \<open>
  \<^verbatim>\<open>int(s)\<close> on a string: white space around, an optional sign, then decimal digits,
  single underscores allowed between two digits. The white space that \<^verbatim>\<open>int\<close> skips is
  tab, line feed, vertical tab, form feed, carriage return and space, and of the code
  points from 128 to 255 the next-line character 133 and the no-break space 160; the
  separators 28 to 31, which \<^verbatim>\<open>str.strip\<close> removes, are not skipped. A string of more than
  4300 digits is refused, which is the interpreter's default limit.
\<close>

definition is_space :: "char \<Rightarrow> bool" where
  "is_space c =
     (let k = (of_char c :: nat) in (9 \<le> k \<and> k \<le> 13) \<or> k = 32 \<or> k = 133 \<or> k = 160)"

definition is_digit :: "char \<Rightarrow> bool" where
  "is_digit c = (let k = (of_char c :: nat) in 48 \<le> k \<and> k \<le> 57)"

definition strip :: "string \<Rightarrow> string" where
  "strip s = rev (dropWhile is_space (rev (dropWhile is_space s)))"

fun digits_val :: "bool \<Rightarrow> nat \<Rightarrow> string \<Rightarrow> nat option" where
  "digits_val d acc [] = (if d then Some acc else None)"
| "digits_val d acc (c # cs) =
     (if is_digit c then digits_val True (10 * acc + (of_char c - 48)) cs
      else if c = CHR ''_'' \<and> d then digits_val False acc cs
      else None)"

definition max_str_digits :: nat where
  "max_str_digits = 4300"

definition pyint :: "string \<Rightarrow> error + int" where
  "pyint s =
     (case strip s of
        [] \<Rightarrow> Inl ValueError
      | c # cs \<Rightarrow>
          if length (filter is_digit (c # cs)) > max_str_digits then Inl ValueError
          else if c = CHR ''+'' then
            (case digits_val False 0 cs of None \<Rightarrow> Inl ValueError | Some n \<Rightarrow> Inr (int n))
          else if c = CHR ''-'' then
            (case digits_val False 0 cs of None \<Rightarrow> Inl ValueError | Some n \<Rightarrow> Inr (- int n))
          else
            (case digits_val False 0 (c # cs) of
               None \<Rightarrow> Inl ValueError | Some n \<Rightarrow> Inr (int n)))"

fun map_e :: "('a \<Rightarrow> error + 'b) \<Rightarrow> 'a list \<Rightarrow> error + 'b list" where
  "map_e f [] = Inr []"
| "map_e f (x # xs) = bnd (f x) (\<lambda>y. bnd (map_e f xs) (\<lambda>ys. Inr (y # ys)))"

subsection \<open>aggregate\_model\_stats\<close>

definition model_params :: "(string \<times> ('x, 'a, 'b) flock_model) list \<Rightarrow> string list" where
  "model_params models = remdups (concat (map (\<lambda>(d, m). map fst (params m)) models))"

definition batch_names :: "(string \<times> ('x, 'a, 'b) flock_model) list \<Rightarrow> string list" where
  "batch_names models = sort (filter (\<lambda>m. CHR ''-'' \<notin> set m) (map fst models))"

definition exp_in_batch ::
  "(string \<times> ('x, 'a, 'b) flock_model) list \<Rightarrow> string \<Rightarrow> string list" where
  "exp_in_batch models batch = sort (filter (\<lambda>m. sublist batch m) (map fst models))"

definition run_index :: "string \<Rightarrow> error + int" where
  "run_index m =
     (if length (split_on CHR ''-'' m) > 1 then pyint (split_on CHR ''-'' m ! 1) else Inr 0)"

text \<open>\<^verbatim>\<open>max\<close> of an empty list raises ValueError.\<close>

definition batch_count :: "string list \<Rightarrow> error + int" where
  "batch_count exps =
     bnd (map_e run_index exps) (\<lambda>idxs.
       case idxs of [] \<Rightarrow> Inl ValueError | i # rest \<Rightarrow> Inr (fold max rest i + 1))"

definition exp_stats ::
  "('x, 'a, 'b, 'f) analysis \<Rightarrow> ('x, 'a, 'b) flock_model \<Rightarrow> int \<Rightarrow> error + sdict" where
  "exp_stats an m skip =
     (let n = traj_n m;
          X = drop (slice_idx skip (length (traj_X m))) (traj_X m);
          A = drop (slice_idx skip (length (traj_A m))) (traj_A m)
      in
      bnd (lookup (params m) ''rho'') (\<lambda>rho.
        let l = (if rho * real n < 0 then None else Some (sqrt (rho * real n))) in
      bnd (process_space an X l (bounds m)) (\<lambda>s1.
      bnd (lookup (params m) ''v'') (\<lambda>v.
      bnd (process_angles an A v) (\<lambda>s2.
        let s = dict_union s1 s2 in
      bnd (em_format an X) (\<lambda>fx.
      bnd (lookup s ''cmass'') (\<lambda>cmass.
      bnd (emergence_psi an fx cmass) (\<lambda>psi.
        Inr (dict_union s [(''psi_cmass'', psi)])))))))))"

text \<open>
  The loop that walks \<open>tmp\<close> down the nested dictionaries, one level for each
  parameter, making a dictionary where a value has none yet; \<open>f\<close> is what the rest of
  the batch's iteration does to the innermost one.
\<close>

fun descend ::
  "(string \<times> real) list \<Rightarrow> string list \<Rightarrow> (ndict \<Rightarrow> error + ndict) \<Rightarrow> ndict
   \<Rightarrow> error + ndict" where
  "descend ps [] f tmp = f tmp"
| "descend ps (p # rest) f tmp =
     bnd (lookup ps p) (\<lambda>pval.
       case tmp of
         Val x \<Rightarrow> Inl AttributeError
       | Dict d \<Rightarrow>
           let sub0 = (case map_of d (PKey pval) of None \<Rightarrow> Dict [] | Some sub \<Rightarrow> sub)
           in bnd (descend ps rest f sub0) (\<lambda>sub.
                Inr (Dict (AList.update (PKey pval) sub d))))"

definition accumulate :: "sdict \<Rightarrow> string \<Rightarrow> ndict \<Rightarrow> error + ndict" where
  "accumulate s stat tmp =
     (case tmp of
        Val x \<Rightarrow> Inl AttributeError
      | Dict d \<Rightarrow>
          (case map_of d (SKey stat) of
             Some old \<Rightarrow>
               bnd (lookup s stat) (\<lambda>ser.
                 case old of
                   Val x \<Rightarrow> Inr (Dict (AList.update (SKey stat) (Val (fadd x (np_mean ser))) d))
                 | Dict e \<Rightarrow> Inl TypeError)
           | None \<Rightarrow>
               bnd (lookup s stat) (\<lambda>ser.
                 Inr (Dict (AList.update (SKey stat) (Val (np_mean ser)) d)))))"

definition divide :: "int \<Rightarrow> string \<Rightarrow> ndict \<Rightarrow> error + ndict" where
  "divide count stat tmp =
     (case tmp of
        Val x \<Rightarrow> Inl IndexError
      | Dict d \<Rightarrow>
          (case map_of d (SKey stat) of
             None \<Rightarrow> Inl KeyError
           | Some (Val x) \<Rightarrow> Inr (Dict (AList.update (SKey stat) (Val (fdiv x count)) d))
           | Some (Dict e) \<Rightarrow> Inl TypeError))"

definition process_batch ::
  "('x, 'a, 'b, 'f) analysis \<Rightarrow> (string \<times> ('x, 'a, 'b) flock_model) list \<Rightarrow> string list \<Rightarrow>
   string list \<Rightarrow> int \<Rightarrow> string \<Rightarrow> ndict \<Rightarrow> error + ndict" where
  "process_batch an models param_list stats_names skip batch stats =
     (let exps = exp_in_batch models batch in
      bnd (batch_count exps) (\<lambda>count.
      bnd (lookup models batch) (\<lambda>bm.
      bnd (if \<exists>p \<in> set (model_params models). map_of (params bm) p = None
           then Inl KeyError else Inr ()) (\<lambda>u.
      descend (params bm) param_list (\<lambda>tmp.
        bnd (for_each exps (\<lambda>exp tmp.
               bnd (lookup models exp) (\<lambda>m.
               bnd (exp_stats an m skip) (\<lambda>s.
                 for_each stats_names (accumulate s) tmp))) tmp) (\<lambda>tmp1.
        for_each stats_names (divide count) tmp1)) stats))))"

definition aggregate_model_stats ::
  "('x, 'a, 'b, 'f) analysis \<Rightarrow> (string \<times> ('x, 'a, 'b) flock_model) list \<Rightarrow> string list \<Rightarrow>
   string list \<Rightarrow> int \<Rightarrow> error + ndict" where
  "aggregate_model_stats an models param_list stats_names skip =
     (if \<exists>p \<in> set param_list. p \<notin> set (model_params models) then Inl ValueError
      else for_each (batch_names models)
             (process_batch an models param_list stats_names skip) (Dict []))"

subsection \<open>Reading nested dictionaries\<close>

text \<open>
  The leaves are numpy scalars: \<^verbatim>\<open>x.keys()\<close> on one raises AttributeError and
  \<^verbatim>\<open>x[k]\<close> raises IndexError. \<^verbatim>\<open>np.mean\<close> of a scalar is the scalar, of a dictionary
  a TypeError.
\<close>

definition dict_keys :: "ndict \<Rightarrow> error + key list" where
  "dict_keys nd = (case nd of Val x \<Rightarrow> Inl AttributeError | Dict d \<Rightarrow> Inr (map fst d))"

definition subscript :: "ndict \<Rightarrow> key \<Rightarrow> error + ndict" where
  "subscript nd k = (case nd of Val x \<Rightarrow> Inl IndexError | Dict d \<Rightarrow> lookup d k)"

definition node_mean :: "ndict \<Rightarrow> error + fval" where
  "node_mean nd = (case nd of Val x \<Rightarrow> Inr x | Dict d \<Rightarrow> Inl TypeError)"

definition xcoord :: "key \<Rightarrow> coord" where
  "xcoord k = (case k of PKey r \<Rightarrow> Num r | SKey str \<Rightarrow> Cat str)"

definition ycoord :: "fval \<Rightarrow> coord" where
  "ycoord y = (case y of Some r \<Rightarrow> Num r | None \<Rightarrow> Gap)"

subsection \<open>The aggregate plots\<close>

text \<open>
  What the interpreter and its libraries decide: the colour that the i-th call of
  \<^verbatim>\<open>np.random.rand(3,)\<close> returns, the order in which \<^verbatim>\<open>list(set(...))\<close> lists the
  distinct elements, how an f-string prints a key, and what \<^verbatim>\<open>plt.savefig\<close> can render
  and write. The state of the plots is the
  surface, the number of markers taken from the module's \<^verbatim>\<open>markers\<close> cycle and the
  number of colours drawn. Font sizes are not recorded.
\<close>

record pyenv =
  rnd :: "nat \<Rightarrow> real \<times> real \<times> real"
  set_order :: "key list \<Rightarrow> key list"
  fmt_key :: "key \<Rightarrow> string"
  mpl :: backend

record plotter =
  surf :: surface
  marks :: nat
  rolls :: nat

definition markers :: "string list" where
  "markers = [''.'', ''+'', ''^'', ''o'', ''*'']"

definition next_marker :: "nat \<Rightarrow> string" where
  "next_marker k = markers ! (k mod 5)"

definition plot_2param ::
  "pyenv \<Rightarrow> string \<Rightarrow> ndict \<Rightarrow> string list \<Rightarrow> string \<Rightarrow> plotter \<Rightarrow> plotter outcome" where
  "plot_2param env name stats param path st0 =
     (if length param \<noteq> 2 then Raise ValueError st0
      else
        loop (map fst titles) (\<lambda>val st.
          need (dict_keys stats) st (\<lambda>p0s.
          loop p0s (\<lambda>p0 st.
            need (subscript stats p0) st (\<lambda>sp0.
            need (dict_keys sp0) st (\<lambda>xval.
            need (map_e (\<lambda>p1.
                    bnd (subscript sp0 p1) (\<lambda>sp1.
                    bnd (subscript sp1 (SKey val)) node_mean)) xval) st (\<lambda>yval.
              let st1 = st\<lparr>marks := marks st + 1, rolls := rolls st + 1\<rparr> in
            case plt_plot (map xcoord xval) (map ycoord yval)
                   (noprops\<lparr>linestyle := Some ''--'',
                            marker := Some (next_marker (marks st)),
                            colour := Some (rnd env (rolls st))\<rparr>) (surf st) of
              Raise e s1 \<Rightarrow> Raise e (st1\<lparr>surf := s1\<rparr>)
            | Done s1 \<Rightarrow>
            need (lookup titles val) (st1\<lparr>surf := s1\<rparr>) (\<lambda>ttl.
            need (lookup labels val) (st1\<lparr>surf := s1\<rparr>) (\<lambda>lbl.
              let s2 = draw (Title (ttl @ '' vs $'' @ [CHR 0x5C] @ param ! 1 @ ''$'')) s1;
                  s3 = plt_suptitle
                         (name @ '' $'' @ [CHR 0x5C] @ param ! 0 @ ''$ = '' @ fmt_key env p0) s2;
                  s4 = draw (Xlabel (''$'' @ [CHR 0x5C] @ ''eta$'')) s3;
                  s5 = draw (Ylabel lbl) s4
              in
              case plt_savefig (mpl env)
                     (path @ ''/'' @ name @ ''_'' @ param ! 0 @ fmt_key env p0 @ ''_''
                        @ param ! 1 @ ''_vs_'' @ val @ ''.png'') s5 of
                Raise e s6 \<Rightarrow> Raise e (st1\<lparr>surf := s6\<rparr>)
              | Done s6 \<Rightarrow> Done (st1\<lparr>surf := plt_cla s6\<rparr>))))))) st)) st0)"

text \<open>
  In \<^verbatim>\<open>plot_3param\<close> the cycle of markers is a local one: its position \<open>k\<close> starts at
  0 in every call and goes through the loops beside the state.
\<close>

definition curve_3param ::
  "pyenv \<Rightarrow> string list \<Rightarrow> string \<Rightarrow> ndict \<Rightarrow> key list \<Rightarrow> key \<Rightarrow> plotter \<times> nat
   \<Rightarrow> (plotter \<times> nat) outcome" where
  "curve_3param env param val sp0 xval p2 stk =
     (case stk of (st, k) \<Rightarrow>
        need (map_e (\<lambda>p1.
                bnd (subscript sp0 p1) (\<lambda>sp1.
                bnd (dict_keys sp1) (\<lambda>ks.
                  if p2 \<in> set ks then
                    bnd (subscript sp0 p1) (\<lambda>sp1.
                    bnd (subscript sp1 p2) (\<lambda>sp2.
                    bnd (subscript sp2 (SKey val)) (\<lambda>nd.
                    bnd (node_mean nd) (\<lambda>y. Inr (Some y)))))
                  else Inr None))) xval) stk (\<lambda>ys.
          let yval = List.map_filter id ys;
              st1 = st\<lparr>rolls := rolls st + 1\<rparr>
          in
          case plt_plot (map xcoord xval) (map ycoord yval)
                 (noprops\<lparr>label := Some (param ! 2 @ '' = '' @ fmt_key env p2),
                          linestyle := Some ''--'',
                          marker := Some (next_marker k),
                          colour := Some (rnd env (rolls st))\<rparr>) (surf st) of
            Raise e s1 \<Rightarrow> Raise e (st1\<lparr>surf := s1\<rparr>, k + 1)
          | Done s1 \<Rightarrow> Done (st1\<lparr>surf := s1\<rparr>, k + 1)))"

definition plot_3param ::
  "pyenv \<Rightarrow> string \<Rightarrow> ndict \<Rightarrow> string list \<Rightarrow> string \<Rightarrow> plotter \<Rightarrow> plotter outcome" where
  "plot_3param env name stats param path st0 =
     (if length param \<noteq> 3 then Raise ValueError st0
      else
        case
          loop (map fst titles) (\<lambda>val stk.
            need (dict_keys stats) stk (\<lambda>p0s.
            loop p0s (\<lambda>p0 stk.
              need (subscript stats p0) stk (\<lambda>sp0.
              need (dict_keys sp0) stk (\<lambda>xval.
              need (map_e (\<lambda>p1. bnd (subscript sp0 p1) dict_keys) xval) stk (\<lambda>kss.
                let groups = set_order env (concat kss) in
              seq (loop groups (curve_3param env param val sp0 xval) stk) (\<lambda>stk1.
                case stk1 of (st, k) \<Rightarrow>
              need (lookup titles val) stk1 (\<lambda>ttl.
              need (lookup labels val) stk1 (\<lambda>lbl.
                let s2 = draw (Title (ttl @ '' vs $'' @ [CHR 0x5C] @ param ! 1 @ ''$''))
                           (surf st);
                    s3 = plt_suptitle
                           (name @ '' $'' @ [CHR 0x5C] @ param ! 0 @ ''$ = ''
                              @ fmt_key env p0) s2;
                    s4 = draw (Xlabel (''$'' @ [CHR 0x5C] @ ''eta$'')) s3;
                    s5 = draw (Ylabel lbl) s4;
                    s6 = draw Legend s5
                in
                case plt_savefig (mpl env)
                       (path @ ''/'' @ name @ ''_'' @ param ! 0 @ fmt_key env p0 @ ''_''
                          @ param ! 1 @ ''_'' @ param ! 2 @ ''_vs_'' @ val @ ''.png'') s6 of
                  Raise e s7 \<Rightarrow> Raise e (st\<lparr>surf := s7\<rparr>, k)
                | Done s7 \<Rightarrow> Done (st\<lparr>surf := plt_cla s7\<rparr>, k)))))))) stk)) (st0, 0)
        of Done stk \<Rightarrow> Done (fst stk)
         | Raise e stk \<Rightarrow> Raise e (fst stk))"

subsection \<open>The command\<close>

text \<open>
  \<^verbatim>\<open>find_models\<close> reads the file system and loads each directory with
  \<^verbatim>\<open>FlockModel.load\<close>; both are parameters.
\<close>

record ('x, 'a, 'b) filesys =
  listdir :: "string \<Rightarrow> error + string list"
  isdir :: "string \<Rightarrow> bool"
  load :: "string \<Rightarrow> error + ('x, 'a, 'b) flock_model"

definition path_join :: "string \<Rightarrow> string \<Rightarrow> string" where
  "path_join a b =
     (if b \<noteq> [] \<and> hd b = CHR ''/'' then b
      else if a = [] \<or> last a = CHR ''/'' then a @ b
      else a @ ''/'' @ b)"

definition find_models ::
  "('x, 'a, 'b) filesys \<Rightarrow> string \<Rightarrow> string
   \<Rightarrow> error + (string \<times> ('x, 'a, 'b) flock_model) list" where
  "find_models fs path name =
     bnd (listdir fs path) (\<lambda>ds.
       let dirs = filter (\<lambda>d. isdir fs (path_join path d) \<and> sublist name d) ds
       in bnd (map_e (\<lambda>d. bnd (load fs (path_join path d)) (\<lambda>m. Inr (d, m))) dirs) (\<lambda>kvs.
            Inr (foldl (\<lambda>acc (k, v). AList.update k v acc) [] kvs)))"

text \<open>\<^verbatim>\<open>exit(0)\<close> raises SystemExit.\<close>

definition plot_results ::
  "pyenv \<Rightarrow> ('x, 'a, 'b, 'f) analysis \<Rightarrow> ('x, 'a, 'b) filesys \<Rightarrow> string \<Rightarrow> string \<Rightarrow> string \<Rightarrow>
   string list \<Rightarrow> plotter \<Rightarrow> plotter outcome" where
  "plot_results env an fs path out model aggregate st =
     (if length aggregate > 3 then Raise ValueError st
      else
        need (find_models fs path model) st (\<lambda>models.
          if length models = 0 then Raise SystemExit st
          else
            need (aggregate_model_stats an models aggregate (map fst titles) 10) st (\<lambda>stats.
              let st1 = st\<lparr>surf := plt_style_use ''figure.figsize = [10, 7]'' (surf st)\<rparr> in
            seq (if length aggregate = 2 then plot_2param env model stats aggregate out st1
                 else Done st1) (\<lambda>st2.
                 if length aggregate = 3 then plot_3param env model stats aggregate out st2
                 else Done st2))))"

section \<open>Notions used in the statements\<close>

text \<open>The state an outcome ends in, whether the procedure returned or raised.\<close>

definition after :: "'s outcome \<Rightarrow> 's" where
  "after m = (case m of Done s \<Rightarrow> s | Raise e s \<Rightarrow> s)"

text \<open>The masked array that \<^verbatim>\<open>plot_trajectory\<close> builds from one coordinate.\<close>

definition masked_of :: "real \<Rightarrow> real list \<Rightarrow> coord list" where
  "masked_of l xs = map (\<lambda>(x, b). if b then Gap else Num x) (zip xs (jump_mask l xs))"

text \<open>
  For the concrete runs: a backend that renders every text and writes every file; one
  whose math-text parser rejects the command made of a backslash and the letter v, as
  matplotlib's does, and accepts every other text; and a geometry module that exports
  the three functions and neither of the names \<^verbatim>\<open>V\<close> and \<^verbatim>\<open>sumvec\<close>.
\<close>

definition bk_ok :: backend where
  "bk_ok = \<lparr>renders = (\<lambda>t. True), write_error = (\<lambda>p. None)\<rparr>"


definition geo0 :: "unit geometry" where
  "geo0 = \<lparr>ang_to_vec = (\<lambda>a. (cos a, sin a)),
           sum_vec_ang = (\<lambda>A V. (sum_list (map2 (\<lambda>a v. cos a * v) A V),
                                   sum_list (map2 (\<lambda>a v. sin a * v) A V))),
           centre_of_mass = (\<lambda>X l b. (sum_list (map fst X) / real (length X),
                                       sum_list (map snd X) / real (length X))),
           glob_V = None, glob_sumvec = None\<rparr>"

text \<open>
  Following a list of keys down a nested dictionary; \<open>inner_at\<close> is the dictionary
  that the walk of \<^verbatim>\<open>aggregate_model_stats\<close> reaches, a new empty one where the keys
  lead nowhere yet.
\<close>

fun get_at :: "key list \<Rightarrow> ndict \<Rightarrow> ndict option" where
  "get_at [] nd = Some nd"
| "get_at (k # ks) (Val x) = None"
| "get_at (k # ks) (Dict d) = (case map_of d k of None \<Rightarrow> None | Some sub \<Rightarrow> get_at ks sub)"

definition inner_at :: "key list \<Rightarrow> ndict \<Rightarrow> ndict" where
  "inner_at q nd = (case get_at q nd of None \<Rightarrow> Dict [] | Some sub \<Rightarrow> sub)"

text \<open>The keys of a batch: its model's values of the parameters, in their order.\<close>

fun param_path :: "(string \<times> real) list \<Rightarrow> string list \<Rightarrow> key list option" where
  "param_path ps [] = Some []"
| "param_path ps (p # rest) =
     (case map_of ps p of
        None \<Rightarrow> None
      | Some v \<Rightarrow> (case param_path ps rest of None \<Rightarrow> None | Some q \<Rightarrow> Some (PKey v # q)))"

definition batch_path ::
  "(string \<times> ('x, 'a, 'b) flock_model) list \<Rightarrow> string list \<Rightarrow> string \<Rightarrow> key list option" where
  "batch_path models param_list b =
     (case map_of models b of None \<Rightarrow> None | Some m \<Rightarrow> param_path (params m) param_list)"

text \<open>
  What one iteration of the batch loop does to the innermost dictionary once the walk
  has reached it: the loop over the experiments, then the loop that divides.
\<close>

definition batch_body ::
  "('x, 'a, 'b, 'f) analysis \<Rightarrow> (string \<times> ('x, 'a, 'b) flock_model) list \<Rightarrow> string list \<Rightarrow>
   int \<Rightarrow> string list \<Rightarrow> int \<Rightarrow> ndict \<Rightarrow> error + ndict" where
  "batch_body an models stats_names skip exps count tmp =
     bnd (for_each exps (\<lambda>exp tmp.
            bnd (lookup models exp) (\<lambda>m.
            bnd (exp_stats an m skip) (\<lambda>s.
              for_each stats_names (accumulate s) tmp))) tmp) (\<lambda>tmp1.
     for_each stats_names (divide count) tmp1)"

text \<open>The number a dictionary holds for a statistic, if it holds one.\<close>

definition stat_val :: "(key \<times> ndict) list \<Rightarrow> string \<Rightarrow> fval option" where
  "stat_val d st = (case map_of d (SKey st) of Some (Val x) \<Rightarrow> Some x | _ \<Rightarrow> None)"

fun is_val :: "ndict \<Rightarrow> bool" where
  "is_val (Val x) = True"
| "is_val (Dict d) = False"

definition vals :: "(key \<times> ndict) list \<Rightarrow> bool" where
  "vals d = list_all is_val (map snd d)"

text \<open>\<^verbatim>\<open>tmp[stat] = m\<close> where there is no entry yet, \<^verbatim>\<open>tmp[stat] += m\<close> where there is.\<close>

definition acc_val :: "fval option \<Rightarrow> fval \<Rightarrow> fval" where
  "acc_val old m = (case old of None \<Rightarrow> m | Some x \<Rightarrow> fadd x m)"

text \<open>
  The time average of a statistic in one experiment: \<^verbatim>\<open>np.mean(s[stat])\<close> for the
  statistics \<open>s\<close> computed from the trajectory after its first \<open>skip\<close> timepoints.
\<close>

definition time_avg ::
  "('x, 'a, 'b, 'f) analysis \<Rightarrow> (string \<times> ('x, 'a, 'b) flock_model) list \<Rightarrow> int \<Rightarrow> string
   \<Rightarrow> string \<Rightarrow> error + fval" where
  "time_avg an models skip st name =
     bnd (lookup models name) (\<lambda>m.
     bnd (exp_stats an m skip) (\<lambda>s.
     bnd (lookup s st) (\<lambda>ser. Inr (np_mean ser))))"

text \<open>
  The arithmetic mean as the specification words it: the sum of the values over their
  number, NaN if one of them is NaN or there is none.
\<close>

definition fmean :: "fval list \<Rightarrow> fval" where
  "fmean ms =
     (if ms = [] \<or> None \<in> set ms then None
      else Some (sum_list (map the ms) / real (length ms)))"

text \<open>
  An innermost dictionary in the making holds numbers under names among the requested
  ones; a finished one holds a number under each of them. \<open>full_at\<close> says that the
  keys \<open>q\<close> lead to a finished one.
\<close>

definition inner_inv :: "string list \<Rightarrow> ndict \<Rightarrow> bool" where
  "inner_inv sn nd = (\<exists>d. nd = Dict d \<and> vals d \<and> fst ` set d \<subseteq> SKey ` set sn)"

definition full_at :: "string list \<Rightarrow> key list \<Rightarrow> ndict \<Rightarrow> bool" where
  "full_at sn q stats =
     (\<exists>d. get_at q stats = Some (Dict d) \<and> vals d \<and> fst ` set d = SKey ` set sn)"

text \<open>
  For the concrete runs: an analysis whose spatial statistics are the positions
  themselves and whose angular statistics are the angles (times the velocity), on
  one-dimensional trajectories; and an experiment with given parameters and
  trajectories.
\<close>

definition an0 :: "(real, real, unit, real list) analysis" where
  "an0 = \<lparr>process_space = (\<lambda>X l b. Inr [(''cmass'', X), (''std_dist_cmass'', X)]),
          process_angles = (\<lambda>A v. Inr [(''avg_abs_vel'', map (\<lambda>a. a * v) A), (''std_angle'', A)]),
          em_format = (\<lambda>X. Inr X),
          emergence_psi = (\<lambda>fx cm. Inr [1])\<rparr>"

definition flock_run ::
  "(string \<times> real) list \<Rightarrow> real list \<Rightarrow> real list \<Rightarrow> (real, real, unit) flock_model" where
  "flock_run ps X A = \<lparr>params = ps, traj_n = 1, traj_X = X, traj_A = A, bounds = ()\<rparr>"

text \<open>
  Two repeats of one experiment, numbered 0 and 1, and the same two with the second
  numbered 2 (the run in between is missing).
\<close>

definition runs_pair :: "(string \<times> (real, real, unit) flock_model) list" where
  "runs_pair =
     [(''run'', flock_run [(''rho'', 1), (''eta'', 2), (''v'', 1)] [0, 1] [2, 4]),
      (''run-1'', flock_run [(''rho'', 1), (''eta'', 2), (''v'', 1)] [0, 3] [6, 8])]"

definition runs_gap :: "(string \<times> (real, real, unit) flock_model) list" where
  "runs_gap =
     [(''run'', flock_run [(''rho'', 1), (''eta'', 2), (''v'', 1)] [0, 1] [2, 4]),
      (''run-2'', flock_run [(''rho'', 1), (''eta'', 2), (''v'', 1)] [0, 3] [6, 8])]"

text \<open>Two experiments that differ at most in the first \<open>n\<close> timepoints of their trajectories.\<close>

definition same_from ::
  "nat \<Rightarrow> ('x, 'a, 'b) flock_model \<Rightarrow> ('x, 'a, 'b) flock_model \<Rightarrow> bool" where
  "same_from n m m' =
     (params m = params m' \<and> traj_n m = traj_n m' \<and> bounds m = bounds m'
      \<and> drop n (traj_X m) = drop n (traj_X m') \<and> drop n (traj_A m) = drop n (traj_A m'))"

text \<open>Two directories whose experiments have the same parameters.\<close>

definition runs_same :: "(string \<times> (real, real, unit) flock_model) list" where
  "runs_same =
     [(''Va'', flock_run [(''rho'', 1), (''eta'', 2), (''v'', 1)] [0, 1] [2, 4]),
      (''Vb'', flock_run [(''rho'', 1), (''eta'', 2), (''v'', 1)] [0, 3] [6, 8])]"

text \<open>
  A repeat whose first run was not loaded: the models, and a file system whose only
  directory it is.
\<close>

definition runs_orphan :: "(string \<times> (real, real, unit) flock_model) list" where
  "runs_orphan = [(''V-1'', flock_run [(''rho'', 1), (''eta'', 2), (''v'', 1)] [0, 3] [6, 8])]"

definition fs_orphan :: "(real, real, unit) filesys" where
  "fs_orphan =
     \<lparr>listdir = (\<lambda>p. Inr [''V-1'']),
      isdir = (\<lambda>p. True),
      load = (\<lambda>p. Inr (flock_run [(''rho'', 1), (''eta'', 2), (''v'', 1)] [0, 3] [6, 8]))\<rparr>"

text \<open>One experiment over twelve timepoints.\<close>

definition runs_long :: "(string \<times> (real, real, unit) flock_model) list" where
  "runs_long =
     [(''run'', flock_run [(''rho'', 1), (''v'', 2)]
                  [0, 0, 0, 0, 0, 0, 0, 0, 0, 0, 5, 7] [9, 9, 9, 9, 9, 9, 9, 9, 9, 9, 1, 3])]"

text \<open>
  For the concrete runs of the plots: colours all black, the distinct elements of a set
  in the order of their first occurrence, keys printed as Python prints a float with an
  integer value, every text rendered and every file written; a state with nothing
  plotted yet; and the four statistics with the same number for each.
\<close>

definition env0 :: pyenv where
  "env0 = \<lparr>rnd = (\<lambda>i. (0, 0, 0)), set_order = remdups,
           fmt_key = (\<lambda>k. case k of PKey r \<Rightarrow> str_int \<lfloor>r\<rfloor> @ ''.0'' | SKey str \<Rightarrow> str),
           mpl = bk_ok\<rparr>"

definition plotter0 :: plotter where
  "plotter0 = \<lparr>surf = empty_surface, marks = 0, rolls = 0\<rparr>"

definition four :: "real \<Rightarrow> ndict" where
  "four x = Dict [(SKey ''avg_abs_vel'', Val (Some x)), (SKey ''std_angle'', Val (Some x)),
                  (SKey ''std_dist_cmass'', Val (Some x)), (SKey ''psi_cmass'', Val (Some x))]"

text \<open>
  Statistics by two parameters; by three parameters where every value of the second
  has both values of the third; and by three where the two values of the second
  parameter have different values of the third.
\<close>

definition stats_two :: ndict where
  "stats_two = Dict [(PKey 1, Dict [(PKey 1, four 3), (PKey 2, four 4)])]"

definition stats_even :: ndict where
  "stats_even =
     Dict [(PKey 1, Dict [(PKey 1, Dict [(PKey 5, four 3), (PKey 6, four 4)]),
                          (PKey 2, Dict [(PKey 5, four 7), (PKey 6, four 8)])])]"

definition stats_uneven :: ndict where
  "stats_uneven =
     Dict [(PKey 1, Dict [(PKey 1, Dict [(PKey 5, four 3)]),
                          (PKey 2, Dict [(PKey 6, four 4)])])]"

text \<open>
  Two experiment directories, \<^verbatim>\<open>V1\<close> with \<open>eta = 1\<close> and \<open>r = 5\<close>, \<^verbatim>\<open>V2\<close> with
  \<open>eta = 2\<close> and \<open>r = 6\<close>, each over twelve timepoints.
\<close>

definition fs_uneven :: "(real, real, unit) filesys" where
  "fs_uneven =
     \<lparr>listdir = (\<lambda>p. Inr [''V1'', ''V2'']),
      isdir = (\<lambda>p. True),
      load = (\<lambda>p. if p = ''in/V1''
                then Inr (flock_run [(''rho'', 1), (''eta'', 1), (''r'', 5), (''v'', 1)]
                       [0, 0, 0, 0, 0, 0, 0, 0, 0, 0, 3, 3] [0, 0, 0, 0, 0, 0, 0, 0, 0, 0, 3, 3])
                else Inr (flock_run [(''rho'', 1), (''eta'', 2), (''r'', 6), (''v'', 1)]
                       [0, 0, 0, 0, 0, 0, 0, 0, 0, 0, 4, 4] [0, 0, 0, 0, 0, 0, 0, 0, 0, 0, 4, 4]))\<rparr>"

section \<open>Properties of util/plot.py\<close>

subsection \<open>Outcomes and loops\<close>

lemma after_simps [simp]: "after (Done s) = s" "after (Raise e s) = s"
  by (simp_all add: after_def)

lemma seq_simps [simp]: "seq (Done s) f = f s" "seq (Raise e s) f = Raise e s"
  by (simp_all add: seq_def)

lemma need_simps [simp]: "need (Inr x) s f = f x" "need (Inl e) s f = Raise e s"
  by (simp_all add: need_def)

lemma loop_upt_raise:
  assumes "0 < n" and "f 0 s = Raise e s'"
  shows "loop [0..<n] f s = Raise e s'"
proof -
  from assms(1) have "[0..<n] = 0 # [1..<n]"
    by (simp add: upt_conv_Cons)
  with assms(2) show ?thesis
    by simp
qed

lemma loop_Done:
  assumes "\<And>x s. x \<in> set xs \<Longrightarrow> \<exists>s'. f x s = Done s'"
  shows "\<exists>s'. loop xs f s = Done s'"
  using assms
proof (induction xs arbitrary: s)
  case Nil
  then show ?case by simp
next
  case (Cons x xs)
  from Cons.prems [of x s] obtain s1 where "f x s = Done s1"
    by auto
  moreover from Cons.IH [of s1] Cons.prems obtain s2 where "loop xs f s1 = Done s2"
    by auto
  ultimately show ?case by simp
qed

lemma str_int_0: "str_int 0 = ''0''"
  by code_simp

lemma str_int_2: "str_int 2 = ''2''"
  by code_simp

subsection \<open>The fading light of an oscillator\<close>

text \<open>
  Claim C10. In fade mode (\<open>blink = False\<close>), for a phase \<open>p\<close> with
  \<open>-\<pi> \<le> p \<le> 2\<pi>\<close>, \<^verbatim>\<open>plot_oscillator\<close> draws the light with an opacity \<open>a\<close> in
  \<open>[0, 1]\<close>, which is 0 when \<open>p = 0\<close> and 1 when \<open>p = \<pi>\<close>, and then the particle's
  dot. The numbers are real numbers: rounding is not modelled.
\<close>

theorem plot_oscillator_fade_alpha:
  assumes "- pi \<le> p" and "p \<le> 2 * pi"
  shows "\<exists>a. plot_oscillator X p f dt False col1 col2 s =
            s\<lparr>axes := axes s @ [Scatter (fst X) (snd X) col1 ''o'' (Some a),
                                Scatter (fst X) (snd X) col2 ''.'' None]\<rparr>
          \<and> 0 \<le> a \<and> a \<le> 1 \<and> (p = 0 \<longrightarrow> a = 0) \<and> (p = pi \<longrightarrow> a = 1)"
proof -
  define a where "a = (if p > pi then 2 * pi - p else if p < 0 then \<bar>p\<bar> else p) / pi"
  have eq: "plot_oscillator X p f dt False col1 col2 s =
            s\<lparr>axes := axes s @ [Scatter (fst X) (snd X) col1 ''o'' (Some a),
                                Scatter (fst X) (snd X) col2 ''.'' None]\<rparr>"
    by (cases X) (simp add: plot_oscillator_def draw_def a_def Let_def)
  have lo: "0 \<le> a" using assms by (simp add: a_def)
  have hi: "a \<le> 1" using assms by (simp add: a_def)
  have z: "p = 0 \<longrightarrow> a = 0" by (simp add: a_def)
  have o: "p = pi \<longrightarrow> a = 1" by (simp add: a_def)
  from eq lo hi z o show ?thesis by blast
qed

theorem plot_oscillator_fade_alpha_witness:
  "- pi \<le> pi \<and> pi \<le> 2 * pi \<and>
   (\<exists>a. plot_oscillator (1, 2) pi 1 1 False ''y'' ''g'' empty_surface =
      empty_surface\<lparr>axes := [Scatter 1 2 ''y'' ''o'' (Some a), Scatter 1 2 ''g'' ''.'' None]\<rparr>
      \<and> 0 \<le> a \<and> a \<le> 1 \<and> a = 1)"
proof -
  have e: "axes empty_surface = []"
    by (simp add: empty_surface_def)
  show ?thesis
    using plot_oscillator_fade_alpha [of pi "(1, 2)" 1 1 "''y''" "''g''" empty_surface] e
    by auto
qed

subsection \<open>Trajectories across a periodic boundary\<close>

lemma jump_mask_length: "length (jump_mask l xs) = (if xs = [] then 1 else length xs)"
  by (induction xs rule: np_diff.induct) (simp_all add: jump_mask_def)

lemma masked_array_jump:
  "masked_array xs (jump_mask l xs) = Inr (masked_of l xs)"
  by (simp add: masked_array_def jump_mask_length masked_of_def)

lemma masked_of_simps:
  "masked_of l [] = []"
  "masked_of l [a] = [Num a]"
  "masked_of l (a # b # xs) = (if \<bar>b - a\<bar> \<ge> l - 1 then Gap else Num a) # masked_of l (b # xs)"
  by (simp_all add: masked_of_def jump_mask_def)

lemma masked_of_length: "length (masked_of l xs) = length xs"
  by (simp add: masked_of_def jump_mask_length)

lemma segments_masked_small:
  assumes "((x1, y1), (x2, y2))
             \<in> set (segments (masked_of l (map fst W)) (masked_of l (map snd W)))"
  shows "\<bar>x2 - x1\<bar> < l - 1 \<and> \<bar>y2 - y1\<bar> < l - 1"
  using assms
proof (induction W rule: induct_list012)
  case 1
  then show ?case by (simp add: masked_of_simps)
next
  case (2 p)
  then show ?case by (simp add: masked_of_simps)
next
  case (3 p q W)
  show ?case
  proof (cases "((x1, y1), (x2, y2))
      \<in> set (segments (masked_of l (map fst (q # W))) (masked_of l (map snd (q # W))))")
    case True
    then show ?thesis using 3 by blast
  next
    case False
    with 3(3) show ?thesis
      by (cases W) (auto simp add: masked_of_simps split: if_splits coord.splits)
  qed
qed

text \<open>
  The two ways \<^verbatim>\<open>plot_trajectory\<close> ends: nothing to do, or one line through the
  window of positions (an empty line where the window is empty).
\<close>

lemma plot_trajectory_cases:
  "plot_trajectory t Xt l col dt s =
     (let W = (if t > dt then pyslice (t - dt - 1) (t + 1) Xt else pyslice 0 (t + 1) Xt)
      in if t \<le> 0 then Done s
         else Done (draw (Line (masked_of l (map fst W)) (masked_of l (map snd W))
                (noprops\<lparr>fmt := Some col,
                   alpha := Some (if col = ''grey'' then 0.3 else 1)\<rparr>)) s))"
  by (simp add: plot_trajectory_def Let_def masked_array_jump plt_plot_def masked_of_length)

text \<open>
  Claim C9. \<^verbatim>\<open>plot_trajectory\<close> draws nothing for \<open>t = 0\<close>, and whatever it adds to
  the axes shows no segment between two consecutive positions that differ by \<open>l - 1\<close> or
  more along either axis: every segment shown is shorter than \<open>l - 1\<close> in both.
\<close>

theorem plot_trajectory_no_wrap_segments:
  "(t = 0 \<longrightarrow> plot_trajectory t Xt l col dt s = Done s) \<and>
   (\<forall>c \<in> set (drop (length (axes s)) (axes (after (plot_trajectory t Xt l col dt s)))).
      \<forall>((x1, y1), (x2, y2)) \<in> set (drawn_segments c).
        \<bar>x2 - x1\<bar> < l - 1 \<and> \<bar>y2 - y1\<bar> < l - 1)"
  using segments_masked_small [of _ _ _ _ l]
  by (auto simp add: plot_trajectory_cases Let_def draw_def)

theorem plot_trajectory_no_wrap_segments_witness:
  "plot_trajectory 0 [(0, 0), (1, 1)] 9 ''grey'' 20 empty_surface = Done empty_surface \<and>
   axes (after (plot_trajectory 3 [(0, 0), (1, 1), (9, 1), (10, 2)] 9 ''grey'' 20 empty_surface))
     = [Line [Num 0, Gap, Num 9, Num 10] [Num 0, Num 1, Num 1, Num 2]
          (noprops\<lparr>fmt := Some ''grey'', alpha := Some 0.3\<rparr>)] \<and>
   drawn_segments (Line [Num 0, Gap, Num 9, Num 10] [Num 0, Num 1, Num 1, Num 2]
          (noprops\<lparr>fmt := Some ''grey'', alpha := Some 0.3\<rparr>)) = [((9, 1), (10, 2))] \<and>
   \<bar>10 - 9\<bar> < (9::real) - 1 \<and> \<bar>2 - 1\<bar> < (9::real) - 1"
proof -
  have a: "plot_trajectory 0 [(0, 0), (1, 1)] 9 ''grey'' 20 empty_surface = Done empty_surface"
    using plot_trajectory_no_wrap_segments [of 0 "[(0, 0), (1, 1)]" 9 "''grey''" 20 empty_surface]
    by simp
  have b: "axes (after (plot_trajectory 3 [(0, 0), (1, 1), (9, 1), (10, 2)] 9 ''grey'' 20
                  empty_surface))
     = [Line [Num 0, Gap, Num 9, Num 10] [Num 0, Num 1, Num 1, Num 2]
          (noprops\<lparr>fmt := Some ''grey'', alpha := Some 0.3\<rparr>)]"
    by (simp add: plot_trajectory_def pyslice_def slice_idx_def masked_array_def
          jump_mask_def plt_plot_def draw_def empty_surface_def)
  have c: "drawn_segments (Line [Num 0, Gap, Num 9, Num 10] [Num 0, Num 1, Num 1, Num 2]
          (noprops\<lparr>fmt := Some ''grey'', alpha := Some 0.3\<rparr>)) = [((9, 1), (10, 2))]"
    by simp
  have e: "axes empty_surface = []"
    by (simp add: empty_surface_def)
  have d: "\<bar>10 - 9\<bar> < (9::real) - 1 \<and> \<bar>2 - 1\<bar> < (9::real) - 1"
    using b c e
      plot_trajectory_no_wrap_segments
        [of 3 "[(0, 0), (1, 1), (9, 1), (10, 2)]" 9 "''grey''" 20 empty_surface]
    by simp
  from a b c d show ?thesis
    by blast
qed

subsection \<open>The frames\<close>

text \<open>
  \<^verbatim>\<open>plot_state\<close> takes a parameter \<^verbatim>\<open>v\<close> and reads \<^verbatim>\<open>V\<close> and \<^verbatim>\<open>sumvec\<close>. Unless the
  geometry module happens to export names spelled so, the first particle stops it, and
  with no particle the test of \<^verbatim>\<open>sumvec\<close> does; the axes stay as
  \<^verbatim>\<open>prepare_state_plot\<close> set them up.
\<close>

lemma plot_state_raises:
  assumes "glob_V g = None" and "glob_sumvec g = None"
  shows "\<exists>e. plot_state bk g t X A v l title subtitle path save show s
              = Raise e (prepare_state_plot l s)"
proof (cases "X = []")
  case True
  with assms show ?thesis
    by (simp add: plot_state_def)
next
  case False
  define f where "f = (\<lambda>i s.
             need (idx A (int i)) s (\<lambda>a.
             case glob_V g of
               None \<Rightarrow> Raise (NameError ''V'') s
             | Some V \<Rightarrow>
                 need (idx V (int i)) s (\<lambda>vi.
                   Done (plot_vector_ang (ang_to_vec g) (X ! i) a vi ''w'' s))))"
  have "\<exists>e. f 0 (prepare_state_plot l s) = Raise e (prepare_state_plot l s)"
    using assms(1) by (simp add: f_def need_def split: sum.splits)
  then obtain e where "f 0 (prepare_state_plot l s) = Raise e (prepare_state_plot l s)" ..
  with False
  have "loop [0..<length X] f (prepare_state_plot l s) = Raise e (prepare_state_plot l s)"
    by (intro loop_upt_raise) simp_all
  then show ?thesis
    by (simp add: plot_state_def Let_def f_def)
qed

text \<open>The other four frames end with \<^verbatim>\<open>plt.cla()\<close> whenever they return.\<close>

lemma plot_state_vectors_clears:
  "plot_state_vectors bk g t X A V l title subtitle path sumvec save show s = Done s'
   \<Longrightarrow> axes s' = []"
  by (auto simp add: plot_state_vectors_def Let_def seq_def plt_cla_def save_close_def
      split: outcome.splits if_splits)

lemma plot_state_particles_trajectories_clears:
  "plot_state_particles_trajectories bk g t Xt l topology title subtitle path cmass save show s
     = Done s'
   \<Longrightarrow> axes s' = []"
  by (auto simp add: plot_state_particles_trajectories_def Let_def seq_def plt_cla_def save_close_def
      split: outcome.splits if_splits)

lemma plot_state_oscillators_clears:
  "plot_state_oscillators bk t X F P dt l title subtitle path save show s = Done s'
   \<Longrightarrow> axes s' = []"
  by (auto simp add: plot_state_oscillators_def Let_def seq_def plt_cla_def save_close_def
      split: outcome.splits if_splits)

lemma plot_trajectories_clears:
  "plot_trajectories bk X M l name title suptitle path save show s = Done s' \<Longrightarrow> axes s' = []"
  by (auto simp add: plot_trajectories_def Let_def seq_def plt_cla_def save_close_def
      split: outcome.splits if_splits)

text \<open>
  With an angle and a velocity for every particle, and a backend that renders every
  text and writes every file, \<^verbatim>\<open>plot_state_vectors\<close> returns.
\<close>

lemma save_close_Done:
  assumes "\<And>txt. renders bk txt" and "\<And>p. write_error bk p = None"
  shows "\<exists>s'. save_close bk save p s = Done s'"
  using assms by (simp add: save_close_def plt_savefig_def list_ex_iff)

lemma idx_in_range: "i < length xs \<Longrightarrow> idx xs (int i) = Inr (xs ! i)"
  by (simp add: idx_def)

lemma plot_state_vectors_completes:
  assumes "length X \<le> length A" and "length X \<le> length V"
      and "\<And>txt. renders bk txt" and "\<And>p. write_error bk p = None"
  shows "\<exists>s'. plot_state_vectors bk g t X A V l title subtitle path False save show s = Done s'"
proof -
  note sc = save_close_Done [of bk, OF assms(3,4)]
  have "\<exists>s'. loop [0..<length X] (\<lambda>i s.
             need (idx A (int i)) s (\<lambda>a.
             need (idx V (int i)) s (\<lambda>vi.
               Done (plot_vector_ang (ang_to_vec g) (X ! i) a vi ''w'' s))))
           (prepare_state_plot l s) = Done s'"
    using assms(1,2) by (intro loop_Done) (simp add: idx_in_range)
  then obtain s2 where "loop [0..<length X] (\<lambda>i s.
             need (idx A (int i)) s (\<lambda>a.
             need (idx V (int i)) s (\<lambda>vi.
               Done (plot_vector_ang (ang_to_vec g) (X ! i) a vi ''w'' s))))
           (prepare_state_plot l s) = Done s2" ..
  moreover obtain s3 where
    "save_close bk save (path @ ''/'' @ str_int t @ ''.jpg'')
       (if show then plt_show (plt_suptitle title (draw (Title subtitle)
           (draw (Xlabel (str_int t)) s2)))
        else plt_suptitle title (draw (Title subtitle) (draw (Xlabel (str_int t)) s2)))
     = Done s3"
    using sc by blast
  ultimately show ?thesis
    by (simp add: plot_state_vectors_def Let_def)
qed

lemma plot_state_oscillators_completes:
  assumes "length X \<le> length P" and "length X \<le> length F"
      and "\<And>txt. renders bk txt" and "\<And>p. write_error bk p = None"
  shows "\<exists>s'. plot_state_oscillators bk t X F P dt l title subtitle path save show s = Done s'"
proof -
  note sc = save_close_Done [of bk, OF assms(3,4)]
  have "\<exists>s'. loop [0..<length X] (\<lambda>i s.
             need (idx P (int i)) s (\<lambda>p.
             need (idx F (int i)) s (\<lambda>f.
               Done (plot_oscillator (X ! i) p f dt False ''y'' ''g'' s))))
           (prepare_state_plot l s) = Done s'"
    using assms(1,2) by (intro loop_Done) (simp add: idx_in_range)
  then obtain s2 where "loop [0..<length X] (\<lambda>i s.
             need (idx P (int i)) s (\<lambda>p.
             need (idx F (int i)) s (\<lambda>f.
               Done (plot_oscillator (X ! i) p f dt False ''y'' ''g'' s))))
           (prepare_state_plot l s) = Done s2" ..
  moreover obtain s3 where
    "save_close bk save (path @ ''/'' @ str_int t @ ''.jpg'')
       (if show then plt_show (plt_suptitle title (draw (Title subtitle)
           (draw (Xlabel (str_int t)) s2)))
        else plt_suptitle title (draw (Title subtitle) (draw (Xlabel (str_int t)) s2)))
     = Done s3"
    using sc by blast
  ultimately show ?thesis
    by (simp add: plot_state_oscillators_def Let_def)
qed

text \<open>
  \<^verbatim>\<open>plot_state_particles_trajectories\<close> reads the frame \<^verbatim>\<open>Xt[t]\<close>: on an array of the
  documented shape (t, N, 2) that frame does not exist.
\<close>

lemma plot_state_particles_trajectories_documented_shape:
  "\<exists>s'. plot_state_particles_trajectories bk geo0 2 \<lparr>npart = 1, frames = [[(0, 0)], [(1, 1)]]\<rparr>
          25 () ''title'' ''sub'' ''out'' False True False empty_surface
        = Raise IndexError s'"
  by (simp add: plot_state_particles_trajectories_def Let_def plot_trajectory_cases
      pyslice_def slice_idx_def column_def idx_def)

text \<open>
  Claim C2. Every plotting function, called with arrays of the documented shapes,
  completes its drawing and saves or displays the frame without raising. The code does
  not: whatever it is given, \<^verbatim>\<open>plot_state\<close> never returns.
\<close>

theorem plot_state_never_completes:
  "plot_state bk (g\<lparr>glob_V := None, glob_sumvec := None\<rparr>) t X A v l title subtitle path
       save show s
     \<noteq> Done s'"
  using plot_state_raises [of "g\<lparr>glob_V := None, glob_sumvec := None\<rparr>" bk t X A v l title
      subtitle path save "show" s]
  by auto

text \<open>
  So wherever \<^verbatim>\<open>plot_state_vectors\<close> returns, \<^verbatim>\<open>plot_state\<close> on the same arguments
  has done something else.
\<close>

lemma plot_state_vectors_returns_plot_state_raises:
  assumes "glob_V g = None" and "glob_sumvec g = None"
      and "plot_state_vectors bk g t X A V l title subtitle path False save show s = Done s'"
  shows "plot_state bk g t X A V l title subtitle path save show s
           \<noteq> plot_state_vectors bk g t X A V l title subtitle path False save show s"
  using plot_state_raises [OF assms(1,2), of bk t X A V l title subtitle path save "show" s]
    assms(3)
  by auto

text \<open>
  Claim C7. \<^verbatim>\<open>plot_state\<close> and \<^verbatim>\<open>plot_state_vectors\<close> perform the same operations on
  a common input with the sum vector disabled. The code does not: on one particle at
  (1, 2) with angle 0 and velocity 3, where every text is rendered and every file
  written, \<^verbatim>\<open>plot_state_vectors\<close> saves the frame with its arrow and clears the axes,
  \<^verbatim>\<open>plot_state\<close> raises NameError before the arrow.
\<close>

theorem plot_state_differs_from_plot_state_vectors:
  "plot_state_vectors bk_ok geo0 0 [(1, 2)] [0] [3] 25 ''title'' ''sub'' ''out'' False True False
       empty_surface
     = Done (empty_surface\<lparr>styles := [''dark_background''],
          files := [(''out/0.jpg'',
             [Axis [0, 25, 0, 25], SetAspect ''equal'', Quiver 1 2 3 0 ''w'',
              Xlabel ''0'', Title ''sub''])]\<rparr>)
   \<and> plot_state bk_ok geo0 0 [(1, 2)] [0] [3::real] 25 ''title'' ''sub'' ''out'' True False
       empty_surface
     = Raise (NameError ''V'')
         (empty_surface\<lparr>axes := [Axis [0, 25, 0, 25], SetAspect ''equal''],
            styles := [''dark_background'']\<rparr>)"
  by (simp add: plot_state_vectors_def plot_state_def geo0_def idx_def
        prepare_state_plot_def plot_vector_ang_def draw_def plt_style_use_def plt_suptitle_def
        plt_savefig_def plt_close_def plt_cla_def empty_surface_def str_int_0
        save_close_def figure_texts_def bk_ok_def)

text \<open>
  Claim C8. Every frame-producing function clears the shared surface before returning,
  so that nothing of one call is left for the next. The code does not in
  \<^verbatim>\<open>plot_state\<close>: it leaves by an exception and the axes keep what
  \<^verbatim>\<open>prepare_state_plot\<close> put on them.
\<close>

theorem plot_state_leaves_axes_uncleared:
  "\<exists>e s'. plot_state bk (g\<lparr>glob_V := None, glob_sumvec := None\<rparr>) t X A v l title subtitle
            path save show s = Raise e s'
          \<and> set (axes s') \<supseteq> {Axis [0, l, 0, l], SetAspect ''equal''}"
proof -
  have "{Axis [0, l, 0, l], SetAspect ''equal''} \<subseteq> set (axes (prepare_state_plot l s))"
    by (simp add: prepare_state_plot_def Let_def draw_def plt_style_use_def)
  then show ?thesis
    using plot_state_raises [of "g\<lparr>glob_V := None, glob_sumvec := None\<rparr>" bk t X A v l title
      subtitle path save "show" s]
    by auto
qed

section \<open>Properties of analysis/plot\_aggregate.py\<close>

subsection \<open>Values that can raise\<close>

lemma bnd_simps [simp]: "bnd (Inr x) f = f x" "bnd (Inl e) f = Inl e"
  by (simp_all add: bnd_def)

lemma bnd_Inr_iff: "bnd m f = Inr y \<longleftrightarrow> (\<exists>x. m = Inr x \<and> f x = Inr y)"
  by (cases m) simp_all

lemma lookup_Inr_iff: "lookup d k = Inr v \<longleftrightarrow> map_of d k = Some v"
  by (simp add: lookup_def split: option.splits)

lemma for_each_append:
  "for_each (xs @ ys) f s = bnd (for_each xs f s) (for_each ys f)"
  by (induction xs arbitrary: s) (simp_all add: bnd_def split: sum.splits)

lemma map_e_length: "map_e f xs = Inr ys \<Longrightarrow> length ys = length xs"
  by (induction xs arbitrary: ys) (auto simp add: bnd_Inr_iff)

subsection \<open>Walking down the nested dictionaries\<close>

lemma param_path_length: "param_path ps pl = Some q \<Longrightarrow> length q = length pl"
  by (induction pl arbitrary: q) (auto split: option.splits)

lemma get_at_empty: "q \<noteq> [] \<Longrightarrow> get_at q (Dict []) = None"
  by (cases q) simp_all

lemma inner_at_empty: "inner_at q (Dict []) = Dict []"
  by (cases q) (simp_all add: inner_at_def)

lemma inner_at_Some: "get_at q nd = Some r \<Longrightarrow> inner_at q nd = r"
  by (simp add: inner_at_def)

text \<open>
  A walk that returns has found every parameter; it hands \<open>f\<close> the dictionary at the
  end of the keys and leaves \<open>f\<close>'s result there.
\<close>

lemma descend_path:
  assumes "descend ps pl f tmp = Inr tmp'"
  shows "\<exists>q r. param_path ps pl = Some q \<and> f (inner_at q tmp) = Inr r \<and> get_at q tmp' = Some r"
  using assms
proof (induction pl arbitrary: tmp tmp')
  case Nil
  then show ?case by (simp add: inner_at_def)
next
  case (Cons p rest)
  from Cons.prems obtain pval where pv: "map_of ps p = Some pval"
    by (auto simp add: bnd_Inr_iff lookup_Inr_iff)
  from Cons.prems pv obtain d where d: "tmp = Dict d"
    by (cases tmp) (simp_all add: lookup_def)
  define sub0 where "sub0 = (case map_of d (PKey pval) of None \<Rightarrow> Dict [] | Some sub \<Rightarrow> sub)"
  from Cons.prems pv d obtain sub where
    sub: "descend ps rest f sub0 = Inr sub" and
    tmp': "tmp' = Dict (AList.update (PKey pval) sub d)"
    by (auto simp add: lookup_def sub0_def bnd_Inr_iff Let_def)
  from Cons.IH [OF sub] obtain q r where
    q: "param_path ps rest = Some q" and r: "f (inner_at q sub0) = Inr r"
    and g: "get_at q sub = Some r"
    by blast
  have "inner_at (PKey pval # q) tmp = inner_at q sub0"
  proof (cases "map_of d (PKey pval)")
    case None
    then show ?thesis
      using inner_at_empty [of q] by (simp add: d sub0_def inner_at_def)
  next
    case (Some a)
    then show ?thesis
      by (simp add: d sub0_def inner_at_def)
  qed
  moreover have "get_at (PKey pval # q) tmp' = get_at q sub"
    by (simp add: tmp' update_conv')
  ultimately show ?case
    using pv q r g by simp
qed

text \<open>Nothing changes under any other list of keys of the same length.\<close>

lemma descend_frame:
  assumes "descend ps pl f tmp = Inr tmp'"
      and "param_path ps pl = Some q"
      and "length q' = length q"
      and "q' \<noteq> q"
  shows "get_at q' tmp' = get_at q' tmp"
  using assms
proof (induction pl arbitrary: tmp tmp' q q')
  case Nil
  then show ?case by simp
next
  case (Cons p rest)
  from Cons.prems(2) obtain pval q0 where pv: "map_of ps p = Some pval"
    and q0: "param_path ps rest = Some q0" and q: "q = PKey pval # q0"
    by (auto split: option.splits)
  from Cons.prems(3) q obtain k q1 where q': "q' = k # q1" and len: "length q1 = length q0"
    by (cases q') auto
  from Cons.prems(1) pv obtain d where d: "tmp = Dict d"
    by (cases tmp) (simp_all add: lookup_def)
  define sub0 where "sub0 = (case map_of d (PKey pval) of None \<Rightarrow> Dict [] | Some sub \<Rightarrow> sub)"
  from Cons.prems(1) pv d obtain sub where
    sub: "descend ps rest f sub0 = Inr sub" and
    tmp': "tmp' = Dict (AList.update (PKey pval) sub d)"
    by (auto simp add: lookup_def sub0_def bnd_Inr_iff Let_def)
  show ?case
  proof (cases "k = PKey pval")
    case False
    then show ?thesis
      by (simp add: q' tmp' d update_conv')
  next
    case True
    with Cons.prems(4) q q' have ne: "q1 \<noteq> q0" by simp
    from Cons.IH [OF sub q0 len ne] have eq: "get_at q1 sub = get_at q1 sub0" .
    from ne len have "q1 \<noteq> []" by auto
    then have "get_at q1 (Dict []) = None" by (rule get_at_empty)
    then have "get_at q1 sub0
        = (case map_of d (PKey pval) of None \<Rightarrow> None | Some s \<Rightarrow> get_at q1 s)"
      by (simp add: sub0_def split: option.splits)
    with eq True show ?thesis
      by (simp add: q' tmp' d update_conv')
  qed
qed

lemma get_at_prefix:
  assumes "get_at (xs @ ys) nd = Some r"
  shows "\<exists>m. get_at xs nd = Some m \<and> get_at ys m = Some r"
  using assms
proof (induction xs arbitrary: nd)
  case Nil
  then show ?case by simp
next
  case (Cons k ks)
  then show ?case
    by (cases nd) (auto split: option.splits)
qed

lemma get_at_Dict:
  assumes "get_at ys m = Some r" and "ys \<noteq> []"
  shows "\<exists>d. m = Dict d"
  using assms by (cases ys; cases m) simp_all

subsection \<open>One batch\<close>

lemma process_batch_effect:
  assumes "process_batch an models pl sn skip b stats = Inr stats'"
  shows "\<exists>q count r. batch_path models pl b = Some q
           \<and> batch_count (exp_in_batch models b) = Inr count
           \<and> batch_body an models sn skip (exp_in_batch models b) count (inner_at q stats) = Inr r
           \<and> get_at q stats' = Some r
           \<and> (\<forall>q'. length q' = length q \<longrightarrow> q' \<noteq> q \<longrightarrow> get_at q' stats' = get_at q' stats)"
proof -
  from assms obtain count bm where
    count: "batch_count (exp_in_batch models b) = Inr count" and
    bm: "map_of models b = Some bm" and
    d: "descend (params bm) pl
          (batch_body an models sn skip (exp_in_batch models b) count) stats = Inr stats'"
    unfolding process_batch_def Let_def batch_body_def [abs_def]
    by (auto simp add: bnd_Inr_iff lookup_Inr_iff split: if_splits)
  from descend_path [OF d] obtain q r where
    q: "param_path (params bm) pl = Some q" and
    r: "batch_body an models sn skip (exp_in_batch models b) count (inner_at q stats) = Inr r" and
    g: "get_at q stats' = Some r"
    by blast
  from descend_frame [OF d q]
  have "\<forall>q'. length q' = length q \<longrightarrow> q' \<noteq> q \<longrightarrow> get_at q' stats' = get_at q' stats"
    by blast
  with count bm q r g show ?thesis
    by (simp add: batch_path_def)
qed

subsection \<open>The innermost dictionary\<close>

lemma vals_update: "vals d \<Longrightarrow> vals (AList.update k (Val x) d)"
  by (induction d) (auto simp add: vals_def)

lemma vals_lookup: "vals d \<Longrightarrow> map_of d k = Some v \<Longrightarrow> \<exists>x. v = Val x"
proof (induction d)
  case Nil
  then show ?case by simp
next
  case (Cons kv d)
  then show ?case
    by (cases kv; cases "snd kv") (auto simp add: vals_def split: if_splits)
qed

lemma stat_val_update:
  "stat_val (AList.update (SKey a) (Val x) d) st = (if st = a then Some x else stat_val d st)"
  by (simp add: stat_val_def update_conv')

lemma stat_val_Some: "vals d \<Longrightarrow> map_of d (SKey a) = Some v \<Longrightarrow> stat_val d a = Some (case v of Val x \<Rightarrow> x)"
  by (cases v) (auto simp add: stat_val_def dest: vals_lookup)

lemma accumulate_effect:
  assumes "accumulate s a (Dict d) = Inr r" and "vals d"
  shows "\<exists>ser. map_of s a = Some ser
           \<and> r = Dict (AList.update (SKey a) (Val (acc_val (stat_val d a) (np_mean ser))) d)"
proof (cases "map_of d (SKey a)")
  case None
  with assms(1) show ?thesis
    by (auto simp add: accumulate_def bnd_Inr_iff lookup_Inr_iff stat_val_def acc_val_def)
next
  case (Some old)
  with assms(2) obtain x where "old = Val x"
    by (auto dest: vals_lookup)
  with Some assms(1) show ?thesis
    by (auto simp add: accumulate_def bnd_Inr_iff lookup_Inr_iff stat_val_def acc_val_def)
qed

lemma accumulate_all:
  assumes "for_each sn (accumulate s) (Dict d) = Inr r" and "vals d"
  shows "\<exists>d'. r = Dict d' \<and> vals d' \<and> fst ` set d' = fst ` set d \<union> SKey ` set sn
           \<and> (\<forall>st. st \<notin> set sn \<longrightarrow> stat_val d' st = stat_val d st)
           \<and> (distinct sn \<longrightarrow>
                (\<forall>st \<in> set sn. \<exists>ser. map_of s st = Some ser
                    \<and> stat_val d' st = Some (acc_val (stat_val d st) (np_mean ser))))"
  using assms
proof (induction sn arbitrary: d)
  case Nil
  then show ?case by auto
next
  case (Cons a sn)
  from Cons.prems(1) obtain r1 where
    r1: "accumulate s a (Dict d) = Inr r1" and rest: "for_each sn (accumulate s) r1 = Inr r"
    by (auto simp add: bnd_Inr_iff)
  from accumulate_effect [OF r1 Cons.prems(2)] obtain ser where
    ser: "map_of s a = Some ser" and
    r1d: "r1 = Dict (AList.update (SKey a) (Val (acc_val (stat_val d a) (np_mean ser))) d)"
    by blast
  define d1 where "d1 = AList.update (SKey a) (Val (acc_val (stat_val d a) (np_mean ser))) d"
  have v1: "vals d1"
    using Cons.prems(2) by (simp add: d1_def vals_update)
  have k1: "fst ` set d1 = insert (SKey a) (fst ` set d)"
    by (simp add: d1_def dom_update)
  have s1: "\<And>st. stat_val d1 st
      = (if st = a then Some (acc_val (stat_val d a) (np_mean ser)) else stat_val d st)"
    by (simp add: d1_def stat_val_update)
  from rest r1d have "for_each sn (accumulate s) (Dict d1) = Inr r"
    by (simp add: d1_def)
  from Cons.IH [OF this v1] obtain d' where
    r: "r = Dict d'" and v: "vals d'" and
    k: "fst ` set d' = fst ` set d1 \<union> SKey ` set sn" and
    o: "\<forall>st. st \<notin> set sn \<longrightarrow> stat_val d' st = stat_val d1 st" and
    i: "distinct sn \<longrightarrow>
          (\<forall>st \<in> set sn. \<exists>ser. map_of s st = Some ser
              \<and> stat_val d' st = Some (acc_val (stat_val d1 st) (np_mean ser)))"
    by blast
  have "fst ` set d' = fst ` set d \<union> SKey ` set (a # sn)"
    using k k1 by auto
  moreover have "\<forall>st. st \<notin> set (a # sn) \<longrightarrow> stat_val d' st = stat_val d st"
    using o s1 by simp
  moreover have "distinct (a # sn) \<longrightarrow>
      (\<forall>st \<in> set (a # sn). \<exists>ser. map_of s st = Some ser
          \<and> stat_val d' st = Some (acc_val (stat_val d st) (np_mean ser)))"
  proof (intro impI ballI)
    fix st
    assume dist: "distinct (a # sn)" and st: "st \<in> set (a # sn)"
    show "\<exists>ser. map_of s st = Some ser
          \<and> stat_val d' st = Some (acc_val (stat_val d st) (np_mean ser))"
    proof (cases "st = a")
      case True
      with dist have "st \<notin> set sn" by simp
      with o s1 True ser show ?thesis by simp
    next
      case False
      with st dist i s1 show ?thesis by auto
    qed
  qed
  ultimately show ?case
    using r v by blast
qed

lemma divide_effect:
  assumes "divide c a (Dict d) = Inr r" and "vals d"
  shows "\<exists>x. stat_val d a = Some x \<and> map_of d (SKey a) = Some (Val x)
           \<and> r = Dict (AList.update (SKey a) (Val (fdiv x c)) d)"
proof (cases "map_of d (SKey a)")
  case None
  with assms(1) show ?thesis
    by (simp add: divide_def)
next
  case (Some old)
  with assms(2) obtain x where "old = Val x"
    by (auto dest: vals_lookup)
  with Some assms(1) show ?thesis
    by (auto simp add: divide_def stat_val_def)
qed

lemma divide_all:
  assumes "for_each sn (divide c) (Dict d) = Inr r" and "vals d"
  shows "\<exists>d'. r = Dict d' \<and> vals d' \<and> fst ` set d' = fst ` set d
           \<and> (\<forall>st. st \<notin> set sn \<longrightarrow> stat_val d' st = stat_val d st)
           \<and> (distinct sn \<longrightarrow>
                (\<forall>st \<in> set sn. stat_val d' st = map_option (\<lambda>x. fdiv x c) (stat_val d st)))"
  using assms
proof (induction sn arbitrary: d)
  case Nil
  then show ?case by auto
next
  case (Cons a sn)
  from Cons.prems(1) obtain r1 where
    r1: "divide c a (Dict d) = Inr r1" and rest: "for_each sn (divide c) r1 = Inr r"
    by (auto simp add: bnd_Inr_iff)
  from divide_effect [OF r1 Cons.prems(2)] obtain x where
    x: "stat_val d a = Some x" and m: "map_of d (SKey a) = Some (Val x)" and
    r1d: "r1 = Dict (AList.update (SKey a) (Val (fdiv x c)) d)"
    by blast
  define d1 where "d1 = AList.update (SKey a) (Val (fdiv x c)) d"
  have v1: "vals d1"
    using Cons.prems(2) by (simp add: d1_def vals_update)
  from m have "SKey a \<in> fst ` set d"
    by (metis map_of_eq_None_iff option.distinct(1))
  then have k1: "fst ` set d1 = fst ` set d"
    by (auto simp add: d1_def dom_update)
  have s1: "\<And>st. stat_val d1 st = (if st = a then Some (fdiv x c) else stat_val d st)"
    by (simp add: d1_def stat_val_update)
  from rest r1d have "for_each sn (divide c) (Dict d1) = Inr r"
    by (simp add: d1_def)
  from Cons.IH [OF this v1] obtain d' where
    r: "r = Dict d'" and v: "vals d'" and
    k: "fst ` set d' = fst ` set d1" and
    o: "\<forall>st. st \<notin> set sn \<longrightarrow> stat_val d' st = stat_val d1 st" and
    i: "distinct sn \<longrightarrow>
          (\<forall>st \<in> set sn. stat_val d' st = map_option (\<lambda>x. fdiv x c) (stat_val d1 st))"
    by blast
  have "\<forall>st. st \<notin> set (a # sn) \<longrightarrow> stat_val d' st = stat_val d st"
    using o s1 by simp
  moreover have "distinct (a # sn) \<longrightarrow>
      (\<forall>st \<in> set (a # sn). stat_val d' st = map_option (\<lambda>x. fdiv x c) (stat_val d st))"
  proof (intro impI ballI)
    fix st
    assume dist: "distinct (a # sn)" and st: "st \<in> set (a # sn)"
    show "stat_val d' st = map_option (\<lambda>x. fdiv x c) (stat_val d st)"
    proof (cases "st = a")
      case True
      with dist have "st \<notin> set sn" by simp
      with o s1 True x show ?thesis by simp
    next
      case False
      with st dist i s1 show ?thesis by auto
    qed
  qed
  ultimately show ?case
    using r v k k1 by auto
qed

lemma experiments_all:
  assumes "for_each exps (\<lambda>e tmp.
              bnd (lookup models e) (\<lambda>m.
              bnd (exp_stats an m skip) (\<lambda>s.
                for_each sn (accumulate s) tmp))) (Dict d) = Inr r"
      and "vals d"
  shows "\<exists>d'. r = Dict d' \<and> vals d'
           \<and> fst ` set d' = fst ` set d \<union> (if exps = [] then {} else SKey ` set sn)
           \<and> (distinct sn \<longrightarrow>
                (\<forall>st \<in> set sn. \<exists>ms. map_e (time_avg an models skip st) exps = Inr ms
                    \<and> stat_val d' st = foldl (\<lambda>old m. Some (acc_val old m)) (stat_val d st) ms))"
  using assms
proof (induction exps arbitrary: d)
  case Nil
  then show ?case by auto
next
  case (Cons e exps)
  from Cons.prems(1) obtain m s r1 where
    m: "map_of models e = Some m" and s: "exp_stats an m skip = Inr s" and
    r1: "for_each sn (accumulate s) (Dict d) = Inr r1" and
    rest: "for_each exps (\<lambda>e tmp.
              bnd (lookup models e) (\<lambda>m.
              bnd (exp_stats an m skip) (\<lambda>s.
                for_each sn (accumulate s) tmp))) r1 = Inr r"
    by (auto simp add: bnd_Inr_iff lookup_Inr_iff)
  from accumulate_all [OF r1 Cons.prems(2)] obtain d1 where
    r1d: "r1 = Dict d1" and v1: "vals d1" and
    k1: "fst ` set d1 = fst ` set d \<union> SKey ` set sn" and
    i1: "distinct sn \<longrightarrow>
          (\<forall>st \<in> set sn. \<exists>ser. map_of s st = Some ser
              \<and> stat_val d1 st = Some (acc_val (stat_val d st) (np_mean ser)))"
    by blast
  from Cons.IH [OF rest [unfolded r1d] v1] obtain d' where
    r: "r = Dict d'" and v: "vals d'" and
    k: "fst ` set d' = fst ` set d1 \<union> (if exps = [] then {} else SKey ` set sn)" and
    i: "distinct sn \<longrightarrow>
          (\<forall>st \<in> set sn. \<exists>ms. map_e (time_avg an models skip st) exps = Inr ms
              \<and> stat_val d' st = foldl (\<lambda>old m. Some (acc_val old m)) (stat_val d1 st) ms)"
    by blast
  have "fst ` set d' = fst ` set d \<union> (if e # exps = [] then {} else SKey ` set sn)"
    using k k1 by auto
  moreover have "distinct sn \<longrightarrow>
      (\<forall>st \<in> set sn. \<exists>ms. map_e (time_avg an models skip st) (e # exps) = Inr ms
          \<and> stat_val d' st = foldl (\<lambda>old m. Some (acc_val old m)) (stat_val d st) ms)"
  proof (intro impI ballI)
    fix st
    assume dist: "distinct sn" and st: "st \<in> set sn"
    from i1 dist st obtain ser where
      ser: "map_of s st = Some ser" and
      sv1: "stat_val d1 st = Some (acc_val (stat_val d st) (np_mean ser))"
      by blast
    from i dist st obtain ms where
      ms: "map_e (time_avg an models skip st) exps = Inr ms" and
      sv: "stat_val d' st = foldl (\<lambda>old m. Some (acc_val old m)) (stat_val d1 st) ms"
      by blast
    have "time_avg an models skip st e = Inr (np_mean ser)"
      using m s ser by (simp add: time_avg_def lookup_def)
    with ms have "map_e (time_avg an models skip st) (e # exps) = Inr (np_mean ser # ms)"
      by simp
    moreover have "stat_val d' st
        = foldl (\<lambda>old m. Some (acc_val old m)) (stat_val d st) (np_mean ser # ms)"
      using sv sv1 by simp
    ultimately show "\<exists>ms. map_e (time_avg an models skip st) (e # exps) = Inr ms
        \<and> stat_val d' st = foldl (\<lambda>old m. Some (acc_val old m)) (stat_val d st) ms"
      by blast
  qed
  ultimately show ?case
    using r v by blast
qed

text \<open>
  One batch on the dictionary \<open>d\<close> it reaches: every requested name gets a number,
  and for names listed once the number is what was there, plus the time averages of
  the batch's experiments in their order, over \<open>count\<close>.
\<close>

lemma batch_body_effect:
  assumes "batch_body an models sn skip exps c (Dict d) = Inr r"
      and "vals d" and "exps \<noteq> []"
  shows "\<exists>d'. r = Dict d' \<and> vals d' \<and> fst ` set d' = fst ` set d \<union> SKey ` set sn
           \<and> (distinct sn \<longrightarrow>
                (\<forall>st \<in> set sn. \<exists>ms. map_e (time_avg an models skip st) exps = Inr ms
                    \<and> stat_val d' st
                        = map_option (\<lambda>x. fdiv x c)
                            (foldl (\<lambda>old m. Some (acc_val old m)) (stat_val d st) ms)))"
proof -
  from assms(1) obtain r1 where
    r1: "for_each exps (\<lambda>e tmp.
              bnd (lookup models e) (\<lambda>m.
              bnd (exp_stats an m skip) (\<lambda>s.
                for_each sn (accumulate s) tmp))) (Dict d) = Inr r1" and
    r2: "for_each sn (divide c) r1 = Inr r"
    by (auto simp add: batch_body_def bnd_Inr_iff)
  from experiments_all [OF r1 assms(2)] assms(3) obtain d1 where
    r1d: "r1 = Dict d1" and v1: "vals d1" and
    k1: "fst ` set d1 = fst ` set d \<union> SKey ` set sn" and
    i1: "distinct sn \<longrightarrow>
          (\<forall>st \<in> set sn. \<exists>ms. map_e (time_avg an models skip st) exps = Inr ms
              \<and> stat_val d1 st = foldl (\<lambda>old m. Some (acc_val old m)) (stat_val d st) ms)"
    by auto
  from divide_all [OF r2 [unfolded r1d] v1] obtain d' where
    r: "r = Dict d'" and v: "vals d'" and k: "fst ` set d' = fst ` set d1" and
    i: "distinct sn \<longrightarrow>
          (\<forall>st \<in> set sn. stat_val d' st = map_option (\<lambda>x. fdiv x c) (stat_val d1 st))"
    by blast
  have "distinct sn \<longrightarrow>
      (\<forall>st \<in> set sn. \<exists>ms. map_e (time_avg an models skip st) exps = Inr ms
          \<and> stat_val d' st
              = map_option (\<lambda>x. fdiv x c)
                  (foldl (\<lambda>old m. Some (acc_val old m)) (stat_val d st) ms))"
  proof (intro impI ballI)
    fix st
    assume dist: "distinct sn" and st: "st \<in> set sn"
    from i1 dist st obtain ms where
      ms: "map_e (time_avg an models skip st) exps = Inr ms" and
      sv: "stat_val d1 st = foldl (\<lambda>old m. Some (acc_val old m)) (stat_val d st) ms"
      by blast
    from i dist st have "stat_val d' st = map_option (\<lambda>x. fdiv x c) (stat_val d1 st)"
      by blast
    with ms sv show "\<exists>ms. map_e (time_avg an models skip st) exps = Inr ms
          \<and> stat_val d' st
              = map_option (\<lambda>x. fdiv x c)
                  (foldl (\<lambda>old m. Some (acc_val old m)) (stat_val d st) ms)"
      by simp
  qed
  with r v k k1 show ?thesis
    by simp
qed

subsection \<open>The loop over the batches\<close>

lemma batch_in_own_experiments:
  assumes "b \<in> set (map fst models)"
  shows "b \<in> set (exp_in_batch models b)"
  using assms by (simp add: exp_in_batch_def)

lemma batch_names_subset: "set (batch_names models) \<subseteq> set (map fst models)"
  by (auto simp add: batch_names_def)

lemma batch_path_length: "batch_path models pl b = Some q \<Longrightarrow> length q = length pl"
  by (auto simp add: batch_path_def param_path_length split: option.splits)

lemma inner_at_cong: "get_at q s = get_at q s' \<Longrightarrow> inner_at q s = inner_at q s'"
  by (simp add: inner_at_def)

lemma process_batch_step:
  assumes ok: "process_batch an models pl sn skip b stats = Inr stats'"
      and inv: "\<forall>q. length q = length pl \<longrightarrow> inner_inv sn (inner_at q stats)"
      and b: "b \<in> set (map fst models)"
  shows "(\<forall>q. length q = length pl \<longrightarrow> inner_inv sn (inner_at q stats'))
       \<and> (\<exists>q. batch_path models pl b = Some q \<and> full_at sn q stats')
       \<and> (\<forall>q. length q = length pl \<longrightarrow> full_at sn q stats \<longrightarrow> full_at sn q stats')"
proof -
  from process_batch_effect [OF ok] obtain q0 count r where
    q0: "batch_path models pl b = Some q0" and
    body: "batch_body an models sn skip (exp_in_batch models b) count (inner_at q0 stats) = Inr r"
    and g: "get_at q0 stats' = Some r" and
    fr: "\<forall>q'. length q' = length q0 \<longrightarrow> q' \<noteq> q0 \<longrightarrow> get_at q' stats' = get_at q' stats"
    by blast
  from q0 have len: "length q0 = length pl"
    by (rule batch_path_length)
  with inv obtain d where d: "inner_at q0 stats = Dict d" and v: "vals d"
    and k: "fst ` set d \<subseteq> SKey ` set sn"
    by (auto simp add: inner_inv_def)
  from b have ne: "exp_in_batch models b \<noteq> []"
    using batch_in_own_experiments [of b models] by auto
  from batch_body_effect [OF body [unfolded d] v ne] obtain d' where
    r: "r = Dict d'" and v': "vals d'" and k': "fst ` set d' = fst ` set d \<union> SKey ` set sn"
    by blast
  from k k' have keys: "fst ` set d' = SKey ` set sn"
    by auto
  have full: "full_at sn q0 stats'"
    using g r v' keys by (simp add: full_at_def)
  have inv': "\<forall>q. length q = length pl \<longrightarrow> inner_inv sn (inner_at q stats')"
  proof (intro allI impI)
    fix q :: "key list"
    assume lq: "length q = length pl"
    show "inner_inv sn (inner_at q stats')"
    proof (cases "q = q0")
      case True
      with g r v' keys show ?thesis
        by (simp add: inner_inv_def inner_at_def)
    next
      case False
      with fr lq len have "get_at q stats' = get_at q stats"
        by simp
      then have "inner_at q stats' = inner_at q stats"
        by (rule inner_at_cong)
      with inv lq show ?thesis
        by simp
    qed
  qed
  have keep: "\<forall>q. length q = length pl \<longrightarrow> full_at sn q stats \<longrightarrow> full_at sn q stats'"
  proof (intro allI impI)
    fix q :: "key list"
    assume lq: "length q = length pl" and f: "full_at sn q stats"
    show "full_at sn q stats'"
    proof (cases "q = q0")
      case True
      with full show ?thesis by simp
    next
      case False
      with fr lq len have "get_at q stats' = get_at q stats"
        by simp
      with f show ?thesis
        by (simp add: full_at_def)
    qed
  qed
  from inv' q0 full keep show ?thesis
    by blast
qed

lemma batches_loop:
  assumes "for_each bs (process_batch an models pl sn skip) stats = Inr stats'"
      and "\<forall>q. length q = length pl \<longrightarrow> inner_inv sn (inner_at q stats)"
      and "set bs \<subseteq> set (map fst models)"
  shows "(\<forall>q. length q = length pl \<longrightarrow> full_at sn q stats \<longrightarrow> full_at sn q stats')
       \<and> (\<forall>b \<in> set bs. \<exists>q. batch_path models pl b = Some q \<and> full_at sn q stats')"
  using assms
proof (induction bs arbitrary: stats)
  case Nil
  then show ?case by simp
next
  case (Cons b bs)
  from Cons.prems(1) obtain s1 where
    s1: "process_batch an models pl sn skip b stats = Inr s1" and
    rest: "for_each bs (process_batch an models pl sn skip) s1 = Inr stats'"
    by (auto simp add: bnd_Inr_iff)
  from Cons.prems(3) have b: "b \<in> set (map fst models)" and bs: "set bs \<subseteq> set (map fst models)"
    by simp_all
  from process_batch_step [OF s1 Cons.prems(2) b] obtain q0 where
    inv1: "\<forall>q. length q = length pl \<longrightarrow> inner_inv sn (inner_at q s1)" and
    q0: "batch_path models pl b = Some q0" and f0: "full_at sn q0 s1" and
    keep1: "\<forall>q. length q = length pl \<longrightarrow> full_at sn q stats \<longrightarrow> full_at sn q s1"
    by blast
  from Cons.IH [OF rest inv1 bs] have
    keep: "\<forall>q. length q = length pl \<longrightarrow> full_at sn q s1 \<longrightarrow> full_at sn q stats'" and
    all: "\<forall>b \<in> set bs. \<exists>q. batch_path models pl b = Some q \<and> full_at sn q stats'"
    by blast+
  from q0 have "length q0 = length pl"
    by (rule batch_path_length)
  with keep f0 have "full_at sn q0 stats'"
    by blast
  with q0 all keep keep1 show ?case
    by auto
qed

lemma batches_frame:
  assumes "for_each bs (process_batch an models pl sn skip) stats = Inr stats'"
      and "\<forall>b \<in> set bs. batch_path models pl b \<noteq> Some q"
      and "length q = length pl"
  shows "get_at q stats' = get_at q stats"
  using assms
proof (induction bs arbitrary: stats)
  case Nil
  then show ?case by simp
next
  case (Cons b bs)
  from Cons.prems(1) obtain s1 where
    s1: "process_batch an models pl sn skip b stats = Inr s1" and
    rest: "for_each bs (process_batch an models pl sn skip) s1 = Inr stats'"
    by (auto simp add: bnd_Inr_iff)
  from process_batch_effect [OF s1] obtain q0 where
    q0: "batch_path models pl b = Some q0" and
    fr: "\<forall>q'. length q' = length q0 \<longrightarrow> q' \<noteq> q0 \<longrightarrow> get_at q' s1 = get_at q' stats"
    by blast
  from q0 have "length q0 = length pl"
    by (rule batch_path_length)
  moreover from Cons.prems(2) q0 have "q \<noteq> q0"
    by auto
  ultimately have "get_at q s1 = get_at q stats"
    using fr Cons.prems(3) by simp
  moreover from Cons.IH [OF rest] Cons.prems(2,3) have "get_at q stats' = get_at q s1"
    by simp
  ultimately show ?case
    by simp
qed

lemma aggregate_loop:
  assumes "aggregate_model_stats an models pl sn skip = Inr stats"
  shows "for_each (batch_names models) (process_batch an models pl sn skip) (Dict []) = Inr stats"
  using assms by (simp add: aggregate_model_stats_def split: if_splits)

lemma inner_inv_empty: "inner_inv sn (inner_at q (Dict []))"
  by (simp add: inner_at_empty inner_inv_def vals_def)

lemma param_path_nth:
  assumes "param_path ps pl = Some q" and "i < length pl"
  shows "\<exists>v. map_of ps (pl ! i) = Some v \<and> q ! i = PKey v"
  using assms
proof (induction pl arbitrary: q i)
  case Nil
  then show ?case by simp
next
  case (Cons p rest)
  then show ?case
    by (cases i) (auto split: option.splits)
qed

lemma batch_inner_dictionary:
  assumes "aggregate_model_stats an models pl sn skip = Inr stats"
      and "b \<in> set (batch_names models)"
  shows "\<exists>q inner. batch_path models pl b = Some q \<and> get_at q stats = Some (Dict inner)
           \<and> vals inner \<and> fst ` set inner = SKey ` set sn"
proof -
  note loop = aggregate_loop [OF assms(1)]
  have "\<forall>q. length q = length pl \<longrightarrow> inner_inv sn (inner_at q (Dict []))"
    by (simp add: inner_inv_empty)
  from batches_loop [OF loop this batch_names_subset] assms(2) obtain q where
    q: "batch_path models pl b = Some q" and f: "full_at sn q stats"
    by blast
  with f show ?thesis
    by (auto simp add: full_at_def)
qed

text \<open>
  The shape of the result. When \<^verbatim>\<open>aggregate_model_stats\<close> returns, its dictionary is
  nested to the depth of \<^verbatim>\<open>param_list\<close>: for every batch the keys \<open>q\<close>, the batch's
  values of the parameters in their order, lead through dictionaries (one for each
  prefix of \<open>q\<close>, the same one for batches that agree on the prefix) to an innermost
  dictionary whose keys are the requested names, each with a number. Which number is
  the subject of the next sections.
\<close>

lemma nested_by_parameters:
  assumes "aggregate_model_stats an models pl sn skip = Inr stats"
      and "b \<in> set (batch_names models)"
  shows "\<exists>m q inner. map_of models b = Some m \<and> batch_path models pl b = Some q
           \<and> length q = length pl
           \<and> (\<forall>i < length pl. \<exists>v. map_of (params m) (pl ! i) = Some v \<and> q ! i = PKey v)
           \<and> (\<forall>i \<le> length q. \<exists>d. get_at (take i q) stats = Some (Dict d))
           \<and> get_at q stats = Some (Dict inner)
           \<and> fst ` set inner = SKey ` set sn
           \<and> (\<forall>st \<in> set sn. \<exists>x. map_of inner (SKey st) = Some (Val x))"
proof -
  from batch_inner_dictionary [OF assms] obtain q inner where
    q: "batch_path models pl b = Some q" and g: "get_at q stats = Some (Dict inner)" and
    v: "vals inner" and k: "fst ` set inner = SKey ` set sn"
    by blast
  from q obtain m where m: "map_of models b = Some m" and pp: "param_path (params m) pl = Some q"
    by (auto simp add: batch_path_def split: option.splits)
  from q have len: "length q = length pl"
    by (rule batch_path_length)
  have nth: "\<forall>i < length pl. \<exists>v. map_of (params m) (pl ! i) = Some v \<and> q ! i = PKey v"
    using param_path_nth [OF pp] by blast
  have pre: "\<forall>i \<le> length q. \<exists>d. get_at (take i q) stats = Some (Dict d)"
  proof (intro allI impI)
    fix i
    assume "i \<le> length q"
    from g have "get_at (take i q @ drop i q) stats = Some (Dict inner)"
      by simp
    from get_at_prefix [OF this] obtain nd where
      nd: "get_at (take i q) stats = Some nd" and rest: "get_at (drop i q) nd = Some (Dict inner)"
      by blast
    show "\<exists>d. get_at (take i q) stats = Some (Dict d)"
    proof (cases "drop i q = []")
      case True
      with rest nd show ?thesis by simp
    next
      case False
      from get_at_Dict [OF rest False] nd show ?thesis by auto
    qed
  qed
  have num: "\<forall>st \<in> set sn. \<exists>x. map_of inner (SKey st) = Some (Val x)"
  proof
    fix st
    assume "st \<in> set sn"
    with k have "SKey st \<in> fst ` set inner"
      by auto
    then obtain nd where nd: "map_of inner (SKey st) = Some nd"
      by (metis map_of_eq_None_iff not_Some_eq)
    with v obtain x where "nd = Val x"
      by (auto dest: vals_lookup)
    with nd show "\<exists>x. map_of inner (SKey st) = Some (Val x)"
      by simp
  qed
  from m q len nth pre g k num show ?thesis
    by blast
qed

subsection \<open>The mean over the repeats\<close>

lemma fadd_simps [simp]:
  "fadd None m = None" "fadd x None = None" "fadd (Some a) (Some c) = Some (a + c)"
  by (simp_all add: fadd_def split: option.splits)

lemma acc_val_simps [simp]: "acc_val None m = m" "acc_val (Some x) m = fadd x m"
  by (simp_all add: acc_val_def)

lemma foldl_acc_Some:
  "foldl (\<lambda>old m. Some (acc_val old m)) (Some x) ms = Some (foldl fadd x ms)"
  by (induction ms arbitrary: x) simp_all

lemma foldl_fadd_None: "foldl fadd None ms = None"
  by (induction ms) simp_all

lemma foldl_fadd:
  "foldl fadd (Some a) ms
     = (if None \<in> set ms then None else Some (a + sum_list (map the ms)))"
proof (induction ms arbitrary: a)
  case Nil
  then show ?case by simp
next
  case (Cons m ms)
  show ?case
    by (cases m) (simp_all add: Cons.IH foldl_fadd_None add.assoc)
qed

lemma mean_of_fold:
  assumes "ms \<noteq> []"
  shows "map_option (\<lambda>x. fdiv x (int (length ms)))
           (foldl (\<lambda>old m. Some (acc_val old m)) None ms) = Some (fmean ms)"
proof -
  from assms obtain m rest where ms: "ms = m # rest"
    by (cases ms) auto
  have "foldl (\<lambda>old m. Some (acc_val old m)) None ms = Some (foldl fadd m rest)"
    by (simp add: ms foldl_acc_Some)
  moreover have "fdiv (foldl fadd m rest) (int (length ms)) = fmean ms"
    by (cases m) (simp_all add: ms foldl_fadd foldl_fadd_None fdiv_def fmean_def)
  ultimately show ?thesis
    by simp
qed

lemma stat_val_SomeD: "stat_val d st = Some x \<Longrightarrow> map_of d (SKey st) = Some (Val x)"
  by (auto simp add: stat_val_def split: option.splits ndict.splits)

lemma distinct_batch_names: "distinct (map fst models) \<Longrightarrow> distinct (batch_names models)"
  by (simp add: batch_names_def)

text \<open>
  Where the code does compute the mean. A batch is a model name \<open>b\<close> without a dash
  and its experiments are the models whose names contain \<open>b\<close>. When the highest run
  number among them is one less than their number, no other batch has the same values
  of the parameters, and the statistic is requested once, the innermost dictionary of
  the batch holds for it the arithmetic mean, over these experiments, of the
  statistic's time average after the first \<open>skip\<close> timepoints. The two runs below show
  what it holds when either of the first two conditions fails.
\<close>

lemma mean_of_regular_batch:
  assumes ok: "aggregate_model_stats an models pl sn skip = Inr stats"
      and dm: "distinct (map fst models)"
      and b: "b \<in> set (batch_names models)"
      and dsn: "distinct sn" and st: "st \<in> set sn"
      and cnt: "batch_count (exp_in_batch models b) = Inr (int (length (exp_in_batch models b)))"
      and uniq: "\<forall>b' \<in> set (batch_names models).
                   b' \<noteq> b \<longrightarrow> batch_path models pl b' \<noteq> batch_path models pl b"
  shows "\<exists>q inner ms. batch_path models pl b = Some q \<and> get_at q stats = Some (Dict inner)
           \<and> map_e (time_avg an models skip st) (exp_in_batch models b) = Inr ms
           \<and> map_of inner (SKey st) = Some (Val (fmean ms))"
proof -
  note loop = aggregate_loop [OF ok]
  from b obtain bs1 bs2 where split: "batch_names models = bs1 @ b # bs2"
    by (auto simp add: in_set_conv_decomp)
  from distinct_batch_names [OF dm] split have nb1: "b \<notin> set bs1" and nb2: "b \<notin> set bs2"
    by auto
  from loop split obtain s1 s2 where
    l1: "for_each bs1 (process_batch an models pl sn skip) (Dict []) = Inr s1" and
    pb: "process_batch an models pl sn skip b s1 = Inr s2" and
    l2: "for_each bs2 (process_batch an models pl sn skip) s2 = Inr stats"
    by (auto simp add: for_each_append bnd_Inr_iff)
  from process_batch_effect [OF pb] obtain q count r where
    q: "batch_path models pl b = Some q" and
    count: "batch_count (exp_in_batch models b) = Inr count" and
    body: "batch_body an models sn skip (exp_in_batch models b) count (inner_at q s1) = Inr r" and
    g2: "get_at q s2 = Some r"
    by blast
  from q have len: "length q = length pl"
    by (rule batch_path_length)
  from count cnt have c: "count = int (length (exp_in_batch models b))"
    by simp
  have o1: "\<forall>b' \<in> set bs1. batch_path models pl b' \<noteq> Some q"
    using uniq split nb1 q by auto
  have o2: "\<forall>b' \<in> set bs2. batch_path models pl b' \<noteq> Some q"
    using uniq split nb2 q by auto
  from batches_frame [OF l1 o1 len] have "inner_at q s1 = inner_at q (Dict [])"
    by (rule inner_at_cong)
  then have fresh: "inner_at q s1 = Dict []"
    by (simp add: inner_at_empty)
  from b have "b \<in> set (map fst models)"
    using batch_names_subset by auto
  then have ne: "exp_in_batch models b \<noteq> []"
    using batch_in_own_experiments [of b models] by auto
  have v0: "vals []"
    by (simp add: vals_def)
  from batch_body_effect [OF body [unfolded fresh] v0 ne] dsn st obtain d' ms where
    r: "r = Dict d'" and
    ms: "map_e (time_avg an models skip st) (exp_in_batch models b) = Inr ms" and
    sv: "stat_val d' st = map_option (\<lambda>x. fdiv x count)
                            (foldl (\<lambda>old m. Some (acc_val old m)) (stat_val [] st) ms)"
    by blast
  from ms have lms: "length ms = length (exp_in_batch models b)"
    by (rule map_e_length)
  with ne have "ms \<noteq> []"
    by auto
  from mean_of_fold [OF this] sv c lms have "stat_val d' st = Some (fmean ms)"
    by (simp add: stat_val_def)
  then have "map_of d' (SKey st) = Some (Val (fmean ms))"
    by (rule stat_val_SomeD)
  moreover from batches_frame [OF l2 o2 len] g2 r have "get_at q stats = Some (Dict d')"
    by simp
  ultimately show ?thesis
    using q ms by blast
qed

subsection \<open>Concrete runs\<close>

lemma flock_run_sel:
  "params (flock_run ps X A) = ps" "traj_n (flock_run ps X A) = 1"
  "traj_X (flock_run ps X A) = X" "traj_A (flock_run ps X A) = A"
  by (simp_all add: flock_run_def)

lemma run_index_values:
  "run_index ''run'' = Inr 0" "run_index ''run-1'' = Inr 1" "run_index ''run-2'' = Inr 2"
  by (simp_all add: run_index_def pyint_def strip_def is_space_def is_digit_def
      max_str_digits_def)

lemma exp_stats_first:
  "exp_stats an0 (flock_run [(''rho'', 1), (''eta'', 2), (''v'', 1)] [0, 1] [2, 4]) 1
     = Inr [(''cmass'', [1]), (''std_dist_cmass'', [1]), (''avg_abs_vel'', [4]),
            (''std_angle'', [4]), (''psi_cmass'', [1])]"
  by (simp add: exp_stats_def an0_def flock_run_def slice_idx_def lookup_def dict_union_def
      Let_def)

lemma exp_stats_second:
  "exp_stats an0 (flock_run [(''rho'', 1), (''eta'', 2), (''v'', 1)] [0, 3] [6, 8]) 1
     = Inr [(''cmass'', [3]), (''std_dist_cmass'', [3]), (''avg_abs_vel'', [8]),
            (''std_angle'', [8]), (''psi_cmass'', [1])]"
  by (simp add: exp_stats_def an0_def flock_run_def slice_idx_def lookup_def dict_union_def
      Let_def)

lemma runs_pair_names:
  "map fst runs_pair = [''run'', ''run-1'']"
  "batch_names runs_pair = [''run'']"
  "exp_in_batch runs_pair ''run'' = [''run'', ''run-1'']"
  "model_params runs_pair = [''rho'', ''eta'', ''v'']"
  by (simp_all add: batch_names_def exp_in_batch_def model_params_def runs_pair_def
      sublist_code flock_run_sel)

lemma runs_pair_lookup:
  "map_of runs_pair ''run''
     = Some (flock_run [(''rho'', 1), (''eta'', 2), (''v'', 1)] [0, 1] [2, 4])"
  "map_of runs_pair ''run-1''
     = Some (flock_run [(''rho'', 1), (''eta'', 2), (''v'', 1)] [0, 3] [6, 8])"
  by (simp_all add: runs_pair_def)

lemma runs_pair_count: "batch_count [''run'', ''run-1''] = Inr 2"
  by (simp add: batch_count_def run_index_values)

lemma runs_pair_aggregate:
  "aggregate_model_stats an0 runs_pair [''rho'', ''eta''] [''std_angle''] 1
     = Inr (Dict [(PKey 1, Dict [(PKey 2, Dict [(SKey ''std_angle'', Val (Some 6))])])])"
  by (simp add: aggregate_model_stats_def process_batch_def runs_pair_names runs_pair_lookup
      runs_pair_count exp_stats_first exp_stats_second Let_def flock_run_sel lookup_def
      accumulate_def divide_def np_mean_def fadd_def fdiv_def)

lemma runs_pair_path: "batch_path runs_pair [''rho'', ''eta''] ''run'' = Some [PKey 1, PKey 2]"
  by (simp add: batch_path_def runs_pair_lookup flock_run_sel)

lemma runs_pair_averages:
  "map_e (time_avg an0 runs_pair 1 ''std_angle'') [''run'', ''run-1''] = Inr [Some 4, Some 8]"
  by (simp add: time_avg_def lookup_def runs_pair_lookup exp_stats_first exp_stats_second
      np_mean_def)

text \<open>Two repeats numbered 0 and 1: the mean 6 of the time averages 4 and 8.\<close>

lemma runs_pair_mean:
  "aggregate_model_stats an0 runs_pair [''rho'', ''eta''] [''std_angle''] 1
     = Inr (Dict [(PKey 1, Dict [(PKey 2, Dict [(SKey ''std_angle'', Val (Some 6))])])])
   \<and> batch_count (exp_in_batch runs_pair ''run'') = Inr (int (length (exp_in_batch runs_pair ''run'')))
   \<and> (\<exists>q inner ms. batch_path runs_pair [''rho'', ''eta''] ''run'' = Some q
        \<and> get_at q (Dict [(PKey 1, Dict [(PKey 2, Dict [(SKey ''std_angle'', Val (Some 6))])])])
            = Some (Dict inner)
        \<and> map_e (time_avg an0 runs_pair 1 ''std_angle'') (exp_in_batch runs_pair ''run'') = Inr ms
        \<and> map_of inner (SKey ''std_angle'') = Some (Val (fmean ms)))
   \<and> fmean [Some 4, Some 8] = Some 6"
proof -
  have c: "batch_count (exp_in_batch runs_pair ''run'')
             = Inr (int (length (exp_in_batch runs_pair ''run'')))"
    by (simp add: runs_pair_names runs_pair_count)
  have d: "distinct (map fst runs_pair)"
    by (simp add: runs_pair_names)
  have u: "\<forall>b' \<in> set (batch_names runs_pair). b' \<noteq> ''run'' \<longrightarrow>
             batch_path runs_pair [''rho'', ''eta''] b' \<noteq> batch_path runs_pair [''rho'', ''eta''] ''run''"
    by (simp add: runs_pair_names)
  have m: "fmean [Some 4, Some 8] = Some 6"
    by (simp add: fmean_def)
  from mean_of_regular_batch [OF runs_pair_aggregate d _ _ _ c u, where st = "''std_angle''"]
  have "\<exists>q inner ms. batch_path runs_pair [''rho'', ''eta''] ''run'' = Some q
        \<and> get_at q (Dict [(PKey 1, Dict [(PKey 2, Dict [(SKey ''std_angle'', Val (Some 6))])])])
            = Some (Dict inner)
        \<and> map_e (time_avg an0 runs_pair 1 ''std_angle'') (exp_in_batch runs_pair ''run'') = Inr ms
        \<and> map_of inner (SKey ''std_angle'') = Some (Val (fmean ms))"
    by (simp add: runs_pair_names)
  with runs_pair_aggregate c m show ?thesis
    by blast
qed

lemma runs_gap_names:
  "batch_names runs_gap = [''run'']"
  "exp_in_batch runs_gap ''run'' = [''run'', ''run-2'']"
  "model_params runs_gap = [''rho'', ''eta'', ''v'']"
  by (simp_all add: batch_names_def exp_in_batch_def model_params_def runs_gap_def
      sublist_code flock_run_sel)

lemma runs_gap_lookup:
  "map_of runs_gap ''run''
     = Some (flock_run [(''rho'', 1), (''eta'', 2), (''v'', 1)] [0, 1] [2, 4])"
  "map_of runs_gap ''run-2''
     = Some (flock_run [(''rho'', 1), (''eta'', 2), (''v'', 1)] [0, 3] [6, 8])"
  by (simp_all add: runs_gap_def)

lemma runs_gap_count: "batch_count [''run'', ''run-2''] = Inr 3"
  by (simp add: batch_count_def run_index_values)

lemma exp_stats_first_all:
  "exp_stats an0 (flock_run [(''rho'', 1), (''eta'', 2), (''v'', 1)] [0, 1] [2, 4]) 0
     = Inr [(''cmass'', [0, 1]), (''std_dist_cmass'', [0, 1]), (''avg_abs_vel'', [2, 4]),
            (''std_angle'', [2, 4]), (''psi_cmass'', [1])]"
  by (simp add: exp_stats_def an0_def flock_run_def slice_idx_def lookup_def dict_union_def
      Let_def)

lemma exp_stats_second_all:
  "exp_stats an0 (flock_run [(''rho'', 1), (''eta'', 2), (''v'', 1)] [0, 3] [6, 8]) 0
     = Inr [(''cmass'', [0, 3]), (''std_dist_cmass'', [0, 3]), (''avg_abs_vel'', [6, 8]),
            (''std_angle'', [6, 8]), (''psi_cmass'', [1])]"
  by (simp add: exp_stats_def an0_def flock_run_def slice_idx_def lookup_def dict_union_def
      Let_def)

text \<open>
  Claim C1. For every batch of experiments with the same parameter values and every
  requested statistic, \<^verbatim>\<open>aggregate_model_stats\<close> stores in the batch's innermost
  dictionary the arithmetic mean, over the repeats of the batch, of the statistic's
  time average after the first \<open>skip\<close> timepoints. The code does not where a run number
  is missing: it divides by the highest run number plus one. Of the two repeats
  \<^verbatim>\<open>run\<close> and \<^verbatim>\<open>run-2\<close>, with time averages 3 and 7, it counts 3 experiments and
  stores 10 / 3, where the mean is 5.
\<close>

theorem aggregate_missing_run_not_mean:
  "aggregate_model_stats an0 runs_gap [''rho'', ''eta''] [''std_angle''] 0
     = Inr (Dict [(PKey 1, Dict [(PKey 2, Dict [(SKey ''std_angle'', Val (Some (10 / 3)))])])])
   \<and> exp_in_batch runs_gap ''run'' = [''run'', ''run-2'']
   \<and> batch_count [''run'', ''run-2''] = Inr 3
   \<and> map_e (time_avg an0 runs_gap 0 ''std_angle'') [''run'', ''run-2''] = Inr [Some 3, Some 7]
   \<and> fmean [Some 3, Some 7] = Some 5"
proof -
  have a: "aggregate_model_stats an0 runs_gap [''rho'', ''eta''] [''std_angle''] 0
     = Inr (Dict [(PKey 1, Dict [(PKey 2, Dict [(SKey ''std_angle'', Val (Some (10 / 3)))])])])"
    by (simp add: aggregate_model_stats_def process_batch_def runs_gap_names runs_gap_lookup
        runs_gap_count exp_stats_first_all exp_stats_second_all Let_def flock_run_sel lookup_def
        accumulate_def divide_def np_mean_def fadd_def fdiv_def)
  have t: "map_e (time_avg an0 runs_gap 0 ''std_angle'') [''run'', ''run-2'']
             = Inr [Some 3, Some 7]"
    by (simp add: time_avg_def lookup_def runs_gap_lookup exp_stats_first_all
        exp_stats_second_all np_mean_def)
  have m: "fmean [Some 3, Some 7] = Some 5"
    by (simp add: fmean_def)
  from a t m runs_gap_names(2) runs_gap_count show ?thesis
    by blast
qed

text \<open>The shape of the result for the two repeats numbered 0 and 1.\<close>

lemma runs_pair_nested:
  "aggregate_model_stats an0 runs_pair [''rho'', ''eta''] [''std_angle''] 1
     = Inr (Dict [(PKey 1, Dict [(PKey 2, Dict [(SKey ''std_angle'', Val (Some 6))])])])
   \<and> ''run'' \<in> set (batch_names runs_pair)
   \<and> batch_path runs_pair [''rho'', ''eta''] ''run'' = Some [PKey 1, PKey 2]
   \<and> (\<exists>m q inner. map_of runs_pair ''run'' = Some m
        \<and> batch_path runs_pair [''rho'', ''eta''] ''run'' = Some q
        \<and> length q = length [''rho'', ''eta'']
        \<and> (\<forall>i < length [''rho'', ''eta''].
              \<exists>v. map_of (params m) ([''rho'', ''eta''] ! i) = Some v \<and> q ! i = PKey v)
        \<and> (\<forall>i \<le> length q. \<exists>d.
              get_at (take i q)
                (Dict [(PKey 1, Dict [(PKey 2, Dict [(SKey ''std_angle'', Val (Some 6))])])])
                = Some (Dict d))
        \<and> get_at q (Dict [(PKey 1, Dict [(PKey 2, Dict [(SKey ''std_angle'', Val (Some 6))])])])
            = Some (Dict inner)
        \<and> fst ` set inner = SKey ` set [''std_angle'']
        \<and> (\<forall>st \<in> set [''std_angle'']. \<exists>x. map_of inner (SKey st) = Some (Val x)))"
proof -
  have b: "''run'' \<in> set (batch_names runs_pair)"
    by (simp add: runs_pair_names)
  show ?thesis
    apply (intro conjI)
       apply (rule runs_pair_aggregate)
      apply (rule b)
     apply (rule runs_pair_path)
    apply (rule nested_by_parameters [OF runs_pair_aggregate b])
    done
qed

lemma runs_same_names:
  "batch_names runs_same = [''Va'', ''Vb'']"
  "exp_in_batch runs_same ''Va'' = [''Va'']"
  "exp_in_batch runs_same ''Vb'' = [''Vb'']"
  "model_params runs_same = [''rho'', ''eta'', ''v'']"
  by (simp_all add: batch_names_def exp_in_batch_def model_params_def runs_same_def
      sublist_code flock_run_sel)

lemma runs_same_lookup:
  "map_of runs_same ''Va''
     = Some (flock_run [(''rho'', 1), (''eta'', 2), (''v'', 1)] [0, 1] [2, 4])"
  "map_of runs_same ''Vb''
     = Some (flock_run [(''rho'', 1), (''eta'', 2), (''v'', 1)] [0, 3] [6, 8])"
  by (simp_all add: runs_same_def)

lemma runs_same_count: "batch_count [''Va''] = Inr 1" "batch_count [''Vb''] = Inr 1"
  by (simp_all add: batch_count_def run_index_def)

text \<open>
  Claim C5. \<^verbatim>\<open>aggregate_model_stats\<close> returns a dictionary nested to the depth of
  \<^verbatim>\<open>param_list\<close>, keyed level by level by each batch's values of the parameters, whose
  innermost dictionary maps each requested name to its aggregated value, batches that
  agree on parameter values sharing the dictionaries. The code does not keep the
  aggregated value where two batches agree on all the values: they share the innermost
  dictionary too, and the second batch adds its sum to what the first one left there,
  already divided, and divides again by its own count. Of the two directories \<^verbatim>\<open>Va\<close>
  and \<^verbatim>\<open>Vb\<close> with the same parameters and the time averages 3 and 7, the dictionary
  under the keys 1 and 2 holds 10 in the end, which is the mean of neither batch nor of
  both, 5.
\<close>

theorem aggregate_shared_dictionary_sum:
  "aggregate_model_stats an0 runs_same [''rho'', ''eta''] [''std_angle''] 0
     = Inr (Dict [(PKey 1, Dict [(PKey 2, Dict [(SKey ''std_angle'', Val (Some 10))])])])
   \<and> batch_names runs_same = [''Va'', ''Vb'']
   \<and> batch_path runs_same [''rho'', ''eta''] ''Va'' = Some [PKey 1, PKey 2]
   \<and> batch_path runs_same [''rho'', ''eta''] ''Vb'' = Some [PKey 1, PKey 2]
   \<and> map_e (time_avg an0 runs_same 0 ''std_angle'') [''Va'', ''Vb''] = Inr [Some 3, Some 7]
   \<and> fmean [Some 3] = Some 3 \<and> fmean [Some 7] = Some 7 \<and> fmean [Some 3, Some 7] = Some 5"
proof -
  have a: "aggregate_model_stats an0 runs_same [''rho'', ''eta''] [''std_angle''] 0
     = Inr (Dict [(PKey 1, Dict [(PKey 2, Dict [(SKey ''std_angle'', Val (Some 10))])])])"
    by (simp add: aggregate_model_stats_def process_batch_def runs_same_names runs_same_lookup
        runs_same_count exp_stats_first_all exp_stats_second_all Let_def flock_run_sel lookup_def
        accumulate_def divide_def np_mean_def fadd_def fdiv_def)
  have p: "batch_path runs_same [''rho'', ''eta''] ''Va'' = Some [PKey 1, PKey 2]"
    "batch_path runs_same [''rho'', ''eta''] ''Vb'' = Some [PKey 1, PKey 2]"
    by (simp_all add: batch_path_def runs_same_lookup flock_run_sel)
  have t: "map_e (time_avg an0 runs_same 0 ''std_angle'') [''Va'', ''Vb'']
             = Inr [Some 3, Some 7]"
    by (simp add: time_avg_def lookup_def runs_same_lookup exp_stats_first_all
        exp_stats_second_all np_mean_def)
  have m: "fmean [Some 3] = Some 3" "fmean [Some 7] = Some 7" "fmean [Some 3, Some 7] = Some 5"
    by (simp_all add: fmean_def)
  from a p t m runs_same_names(1) show ?thesis
    by blast
qed

subsection \<open>The statistics of the command\<close>

lemma titles_keys:
  "map fst titles = [''avg_abs_vel'', ''std_angle'', ''std_dist_cmass'', ''psi_cmass'']"
  by (simp add: titles_def)

text \<open>
  \<^verbatim>\<open>plot_results\<close> aggregates the keys of \<^verbatim>\<open>titles\<close> with the default \<^verbatim>\<open>skip\<close> of 10:
  with at most three parameters and a model found, what it does next depends on the
  result of that call alone.
\<close>

lemma plot_results_aggregates:
  assumes "length aggregate \<le> 3" and "find_models fs path model = Inr models"
      and "models \<noteq> []"
  shows "plot_results env an fs path out model aggregate st =
           need (aggregate_model_stats an models aggregate
                   [''avg_abs_vel'', ''std_angle'', ''std_dist_cmass'', ''psi_cmass''] 10) st
             (\<lambda>stats.
                let st1 = st\<lparr>surf := plt_style_use ''figure.figsize = [10, 7]'' (surf st)\<rparr> in
                seq (if length aggregate = 2 then plot_2param env model stats aggregate out st1
                     else Done st1) (\<lambda>st2.
                     if length aggregate = 3 then plot_3param env model stats aggregate out st2
                     else Done st2))"
  using assms by (simp add: plot_results_def titles_keys)

lemma drop_slice_idx: "drop (slice_idx (int n) (length xs)) xs = drop n xs"
proof (cases "n \<le> length xs")
  case True
  then show ?thesis by (simp add: slice_idx_def min_def)
next
  case False
  then show ?thesis by (simp add: slice_idx_def min_def)
qed

text \<open>
  The timepoints skipped: the statistics with \<open>n\<close> timepoints skipped are those, with
  none skipped, of the experiment whose two trajectories have lost their first \<open>n\<close>
  timepoints; so they do not depend on these.
\<close>

lemma exp_stats_skip:
  "exp_stats an m (int n)
     = exp_stats an (m\<lparr>traj_X := drop n (traj_X m), traj_A := drop n (traj_A m)\<rparr>) 0"
proof -
  have z: "\<And>k. slice_idx 0 k = 0"
    by (simp add: slice_idx_def)
  show ?thesis
    by (simp add: exp_stats_def drop_slice_idx z)
qed

lemma exp_stats_same_from:
  assumes "same_from n m m'"
  shows "exp_stats an m' (int n) = exp_stats an m (int n)"
  using assms by (simp add: exp_stats_def same_from_def drop_slice_idx)

lemma exp_stats_psi:
  assumes "exp_stats an m (int n) = Inr s"
  shows "\<exists>fx cm psi. em_format an (drop n (traj_X m)) = Inr fx
           \<and> emergence_psi an fx cm = Inr psi \<and> map_of s ''psi_cmass'' = Some psi"
proof -
  from assms obtain s0 fx cm psi where
    f: "em_format an (drop n (traj_X m)) = Inr fx" and
    p: "emergence_psi an fx cm = Inr psi" and
    s: "s = dict_union s0 [(''psi_cmass'', psi)]"
    by (auto simp add: exp_stats_def drop_slice_idx bnd_Inr_iff Let_def)
  from s have "map_of s ''psi_cmass'' = Some psi"
    by (simp add: dict_union_def update_conv')
  with f p show ?thesis
    by blast
qed

lemma map_e_elem:
  assumes "map_e f xs = Inr ys" and "x \<in> set xs"
  shows "\<exists>y. f x = Inr y"
  using assms
proof (induction xs arbitrary: ys)
  case Nil
  then show ?case by simp
next
  case (Cons a xs)
  then show ?case
    by (auto simp add: bnd_Inr_iff)
qed

lemma batches_each:
  assumes "for_each bs (process_batch an models pl sn skip) stats = Inr stats'"
      and "\<forall>q. length q = length pl \<longrightarrow> inner_inv sn (inner_at q stats)"
      and "set bs \<subseteq> set (map fst models)"
      and "b \<in> set bs"
  shows "\<exists>s1 s2. (\<forall>q. length q = length pl \<longrightarrow> inner_inv sn (inner_at q s1))
           \<and> process_batch an models pl sn skip b s1 = Inr s2"
  using assms
proof (induction bs arbitrary: stats)
  case Nil
  then show ?case by simp
next
  case (Cons a bs)
  from Cons.prems(1) obtain s1 where
    s1: "process_batch an models pl sn skip a stats = Inr s1" and
    rest: "for_each bs (process_batch an models pl sn skip) s1 = Inr stats'"
    by (auto simp add: bnd_Inr_iff)
  show ?case
  proof (cases "b = a")
    case True
    with s1 Cons.prems(2) show ?thesis by blast
  next
    case False
    with Cons.prems(4) have b: "b \<in> set bs" by simp
    from Cons.prems(3) have a: "a \<in> set (map fst models)" and bs: "set bs \<subseteq> set (map fst models)"
      by simp_all
    from process_batch_step [OF s1 Cons.prems(2) a]
    have "\<forall>q. length q = length pl \<longrightarrow> inner_inv sn (inner_at q s1)"
      by blast
    from Cons.IH [OF rest this bs b] show ?thesis .
  qed
qed

text \<open>
  Every experiment of every batch has each requested statistic computed, once the
  names are distinct.
\<close>

lemma every_experiment_computed:
  assumes ok: "aggregate_model_stats an models pl sn skip = Inr stats"
      and b: "b \<in> set (batch_names models)"
      and e: "e \<in> set (exp_in_batch models b)"
      and dsn: "distinct sn"
      and st: "st \<in> set sn"
  shows "\<exists>x. time_avg an models skip st e = Inr x"
proof -
  note loop = aggregate_loop [OF ok]
  have "\<forall>q. length q = length pl \<longrightarrow> inner_inv sn (inner_at q (Dict []))"
    by (simp add: inner_inv_empty)
  from batches_each [OF loop this batch_names_subset b] obtain s1 s2 where
    inv: "\<forall>q. length q = length pl \<longrightarrow> inner_inv sn (inner_at q s1)" and
    pb: "process_batch an models pl sn skip b s1 = Inr s2"
    by blast
  from process_batch_effect [OF pb] obtain q count r where
    q: "batch_path models pl b = Some q" and
    body: "batch_body an models sn skip (exp_in_batch models b) count (inner_at q s1) = Inr r"
    by blast
  from q have "length q = length pl"
    by (rule batch_path_length)
  with inv obtain d where d: "inner_at q s1 = Dict d" and v: "vals d"
    by (auto simp add: inner_inv_def)
  from e have ne: "exp_in_batch models b \<noteq> []"
    by auto
  from batch_body_effect [OF body [unfolded d] v ne] dsn st obtain ms where
    "map_e (time_avg an models skip st) (exp_in_batch models b) = Inr ms"
    by blast
  from map_e_elem [OF this e] show ?thesis .
qed

text \<open>
  The experiments that are reached. The command aggregates with the four names
  \<^verbatim>\<open>avg_abs_vel\<close>, \<^verbatim>\<open>std_angle\<close>, \<^verbatim>\<open>std_dist_cmass\<close> and \<^verbatim>\<open>psi_cmass\<close> and with
  \<^verbatim>\<open>skip = 10\<close>. For every loaded experiment whose name contains the name of a batch,
  the statistics are computed with 10 timepoints skipped and hold a series for each of
  the four names; they are the same for any experiment that differs from it in the
  first 10 timepoints only; and the batch's innermost dictionary has exactly the four
  names as its keys.
\<close>

lemma four_statistics_of_reached_experiments:
  assumes ok: "aggregate_model_stats an models pl (map fst titles) 10 = Inr stats"
      and b: "b \<in> set (batch_names models)"
      and e: "e \<in> set (exp_in_batch models b)"
  shows "\<exists>m s q inner. map_of models e = Some m \<and> exp_stats an m 10 = Inr s
           \<and> (\<forall>st \<in> {''avg_abs_vel'', ''std_angle'', ''std_dist_cmass'', ''psi_cmass''}.
                 \<exists>ser. map_of s st = Some ser)
           \<and> (\<forall>m'. same_from 10 m m' \<longrightarrow> exp_stats an m' 10 = Inr s)
           \<and> batch_path models pl b = Some q \<and> get_at q stats = Some (Dict inner)
           \<and> fst ` set inner
               = SKey ` {''avg_abs_vel'', ''std_angle'', ''std_dist_cmass'', ''psi_cmass''}"
proof -
  have dsn: "distinct (map fst titles)"
    by (simp add: titles_keys)
  have four: "set (map fst titles)
      = {''avg_abs_vel'', ''std_angle'', ''std_dist_cmass'', ''psi_cmass''}"
    by (simp add: titles_keys)
  have "''psi_cmass'' \<in> set (map fst titles)"
    by (simp add: titles_keys)
  from every_experiment_computed [OF ok b e dsn this] obtain m s where
    m: "map_of models e = Some m" and s: "exp_stats an m 10 = Inr s"
    by (auto simp add: time_avg_def bnd_Inr_iff lookup_Inr_iff)
  have ser: "\<forall>st \<in> {''avg_abs_vel'', ''std_angle'', ''std_dist_cmass'', ''psi_cmass''}.
                 \<exists>ser. map_of s st = Some ser"
  proof
    fix st
    assume "st \<in> {''avg_abs_vel'', ''std_angle'', ''std_dist_cmass'', ''psi_cmass''}"
    with four have "st \<in> set (map fst titles)"
      by simp
    from every_experiment_computed [OF ok b e dsn this] m s
    show "\<exists>ser. map_of s st = Some ser"
      by (auto simp add: time_avg_def bnd_Inr_iff lookup_Inr_iff)
  qed
  have same: "\<forall>m'. same_from 10 m m' \<longrightarrow> exp_stats an m' 10 = Inr s"
    using exp_stats_same_from [of 10 m _ an] s by simp
  from batch_inner_dictionary [OF ok b] obtain q inner where
    q: "batch_path models pl b = Some q" and g: "get_at q stats = Some (Dict inner)" and
    k: "fst ` set inner = SKey ` set (map fst titles)"
    by blast
  from m s ser same q g k four show ?thesis
    by auto
qed

lemma runs_long_names:
  "batch_names runs_long = [''run'']"
  "exp_in_batch runs_long ''run'' = [''run'']"
  "model_params runs_long = [''rho'', ''v'']"
  by (simp_all add: batch_names_def exp_in_batch_def model_params_def runs_long_def
      sublist_code flock_run_sel)

lemma runs_long_lookup:
  "map_of runs_long ''run''
     = Some (flock_run [(''rho'', 1), (''v'', 2)]
               [0, 0, 0, 0, 0, 0, 0, 0, 0, 0, 5, 7] [9, 9, 9, 9, 9, 9, 9, 9, 9, 9, 1, 3])"
  by (simp add: runs_long_def)

lemma exp_stats_long:
  "exp_stats an0 (flock_run [(''rho'', 1), (''v'', 2)]
               [0, 0, 0, 0, 0, 0, 0, 0, 0, 0, 5, 7] [9, 9, 9, 9, 9, 9, 9, 9, 9, 9, 1, 3]) 10
     = Inr [(''cmass'', [5, 7]), (''std_dist_cmass'', [5, 7]), (''avg_abs_vel'', [2, 6]),
            (''std_angle'', [1, 3]), (''psi_cmass'', [1])]"
  by (simp add: exp_stats_def an0_def flock_run_def slice_idx_def lookup_def dict_union_def
      Let_def)

lemma runs_long_count: "batch_count [''run''] = Inr 1"
  by (simp add: batch_count_def run_index_values)

lemma runs_long_aggregate:
  "aggregate_model_stats an0 runs_long [''rho''] (map fst titles) 10
     = Inr (Dict [(PKey 1, Dict [(SKey ''avg_abs_vel'', Val (Some 4)),
                                 (SKey ''std_angle'', Val (Some 2)),
                                 (SKey ''std_dist_cmass'', Val (Some 6)),
                                 (SKey ''psi_cmass'', Val (Some 1))])])"
  by (simp add: aggregate_model_stats_def process_batch_def runs_long_names runs_long_lookup
      runs_long_count exp_stats_long titles_keys Let_def flock_run_sel lookup_def
      accumulate_def divide_def np_mean_def fdiv_def)

lemma runs_long_four_statistics:
  "aggregate_model_stats an0 runs_long [''rho''] (map fst titles) 10
     = Inr (Dict [(PKey 1, Dict [(SKey ''avg_abs_vel'', Val (Some 4)),
                                 (SKey ''std_angle'', Val (Some 2)),
                                 (SKey ''std_dist_cmass'', Val (Some 6)),
                                 (SKey ''psi_cmass'', Val (Some 1))])])
   \<and> ''run'' \<in> set (batch_names runs_long)
   \<and> ''run'' \<in> set (exp_in_batch runs_long ''run'')
   \<and> (\<exists>m s q inner. map_of runs_long ''run'' = Some m \<and> exp_stats an0 m 10 = Inr s
         \<and> (\<forall>st \<in> {''avg_abs_vel'', ''std_angle'', ''std_dist_cmass'', ''psi_cmass''}.
               \<exists>ser. map_of s st = Some ser)
         \<and> (\<forall>m'. same_from 10 m m' \<longrightarrow> exp_stats an0 m' 10 = Inr s)
         \<and> batch_path runs_long [''rho''] ''run'' = Some q
         \<and> get_at q (Dict [(PKey 1, Dict [(SKey ''avg_abs_vel'', Val (Some 4)),
                                 (SKey ''std_angle'', Val (Some 2)),
                                 (SKey ''std_dist_cmass'', Val (Some 6)),
                                 (SKey ''psi_cmass'', Val (Some 1))])]) = Some (Dict inner)
         \<and> fst ` set inner
             = SKey ` {''avg_abs_vel'', ''std_angle'', ''std_dist_cmass'', ''psi_cmass''})"
proof -
  have b: "''run'' \<in> set (batch_names runs_long)"
    by (simp add: runs_long_names)
  have e: "''run'' \<in> set (exp_in_batch runs_long ''run'')"
    by (simp add: runs_long_names)
  show ?thesis
    apply (intro conjI)
       apply (rule runs_long_aggregate)
      apply (rule b)
     apply (rule e)
    apply (rule four_statistics_of_reached_experiments [OF runs_long_aggregate b e])
    done
qed

lemma fs_orphan_models: "find_models fs_orphan ''in'' ''V'' = Inr runs_orphan"
  by (simp add: find_models_def fs_orphan_def runs_orphan_def path_join_def sublist_code)

lemma runs_orphan_aggregate:
  "aggregate_model_stats an runs_orphan [''rho'', ''eta''] (map fst titles) 10 = Inr (Dict [])"
  by (simp add: aggregate_model_stats_def batch_names_def model_params_def runs_orphan_def
      flock_run_sel)

text \<open>
  Claim C6. For every loaded experiment the aggregator computes the four statistics
  \<^verbatim>\<open>avg_abs_vel\<close>, \<^verbatim>\<open>std_angle\<close>, \<^verbatim>\<open>std_dist_cmass\<close> and \<^verbatim>\<open>psi_cmass\<close> from the
  trajectory without its first 10 timepoints. The code does not for a loaded experiment
  whose name contains no name without a dash: it belongs to no batch and is never
  looked at. Of the single directory \<^verbatim>\<open>V-1\<close>, loaded by the command, nothing is
  computed whatever the analysis functions are: the result is the empty dictionary and
  the command returns with nothing plotted.
\<close>

theorem aggregate_orphan_computes_nothing:
  "find_models fs_orphan ''in'' ''V'' = Inr runs_orphan
   \<and> map fst runs_orphan = [''V-1'']
   \<and> batch_names runs_orphan = []
   \<and> aggregate_model_stats an runs_orphan [''rho'', ''eta''] (map fst titles) 10
       = Inr (Dict [])
   \<and> plot_results env0 an fs_orphan ''in'' ''out'' ''V'' [''rho'', ''eta''] plotter0
       = Done (plotter0\<lparr>surf := empty_surface\<lparr>styles := [''figure.figsize = [10, 7]'']\<rparr>\<rparr>)"
proof -
  have n: "map fst runs_orphan = [''V-1'']" "batch_names runs_orphan = []"
    by (simp_all add: batch_names_def runs_orphan_def)
  have ne: "length runs_orphan \<noteq> 0"
    by (simp add: runs_orphan_def)
  have p: "plot_results env0 an fs_orphan ''in'' ''out'' ''V'' [''rho'', ''eta''] plotter0
       = Done (plotter0\<lparr>surf := empty_surface\<lparr>styles := [''figure.figsize = [10, 7]'']\<rparr>\<rparr>)"
    using ne
    by (simp add: plot_results_def fs_orphan_models runs_orphan_aggregate)
       (simp add: plot_2param_def dict_keys_def titles_def plotter0_def plt_style_use_def
          empty_surface_def)
  from fs_orphan_models n runs_orphan_aggregate p show ?thesis
    by blast
qed

subsection \<open>The checks of the number of parameters\<close>

lemma need_Raise:
  "need v s f = Raise e s'
   \<longleftrightarrow> (v = Inl e \<and> s' = s) \<or> (\<exists>x. v = Inr x \<and> f x = Raise e s')"
  by (cases v) auto

lemma loop_no_ValueError:
  assumes "\<And>x s s'. x \<in> set xs \<Longrightarrow> f x s \<noteq> Raise ValueError s'"
  shows "loop xs f s \<noteq> Raise ValueError s'"
  using assms
proof (induction xs arbitrary: s)
  case Nil
  then show ?case by simp
next
  case (Cons x xs)
  show ?case
  proof (cases "f x s")
    case (Done s1)
    with Cons show ?thesis by simp
  next
    case (Raise e s1)
    with Cons.prems [of x s s1] show ?thesis by auto
  qed
qed

lemma map_e_Inl:
  assumes "map_e f xs = Inl e"
  shows "\<exists>x \<in> set xs. f x = Inl e"
  using assms
proof (induction xs)
  case Nil
  then show ?case by simp
next
  case (Cons a xs)
  then show ?case
    by (cases "f a"; cases "map_e f xs") (auto simp add: bnd_def)
qed

lemma no_ValueError_reads:
  "dict_keys nd \<noteq> Inl ValueError"
  "subscript nd k \<noteq> Inl ValueError"
  "node_mean nd \<noteq> Inl ValueError"
  "lookup d k' \<noteq> Inl ValueError"
  by (simp_all add: dict_keys_def subscript_def node_mean_def lookup_def
      split: ndict.splits option.splits)

lemma yval_no_ValueError:
  "map_e (\<lambda>p1. bnd (subscript sp0 p1) (\<lambda>sp1. bnd (subscript sp1 (SKey val)) node_mean)) xval
     \<noteq> Inl ValueError"
proof
  assume "map_e (\<lambda>p1. bnd (subscript sp0 p1) (\<lambda>sp1. bnd (subscript sp1 (SKey val)) node_mean))
            xval = Inl ValueError"
  from map_e_Inl [OF this] obtain p1 where
    "bnd (subscript sp0 p1) (\<lambda>sp1. bnd (subscript sp1 (SKey val)) node_mean) = Inl ValueError"
    by blast
  then show False
    using no_ValueError_reads
    by (auto simp add: bnd_def split: sum.splits)
qed

text \<open>
  Within \<^verbatim>\<open>plot_2param\<close> the two lists handed to \<^verbatim>\<open>plt.plot\<close> have the same length,
  so that with two parameters a ValueError can only come out of \<^verbatim>\<open>plt.savefig\<close>: there
  is none where every text is rendered and opening the file raises no ValueError.
\<close>

lemma need_no_ValueError:
  assumes "v \<noteq> Inl ValueError" and "\<And>x. v = Inr x \<Longrightarrow> f x \<noteq> Raise ValueError s'"
  shows "need v s f \<noteq> Raise ValueError s'"
  using assms by (cases v) auto

lemma plot_2param_two:
  assumes "length param = 2" and "\<And>txt. renders (mpl env) txt"
      and "\<And>p. write_error (mpl env) p \<noteq> Some ValueError"
  shows "plot_2param env name stats param path st \<noteq> Raise ValueError st'"
  unfolding plot_2param_def using assms(1)
  apply simp
  apply (rule loop_no_ValueError)
  apply (rule need_no_ValueError, rule no_ValueError_reads)
  apply (rule loop_no_ValueError)
  apply (rule need_no_ValueError, rule no_ValueError_reads)
  apply (rule need_no_ValueError, rule no_ValueError_reads)
  apply (rule need_no_ValueError, rule yval_no_ValueError)
  using assms(2,3)
  apply (auto simp add: plt_plot_def Let_def need_Raise no_ValueError_reads plt_savefig_def
      list_ex_iff dest: map_e_length split: outcome.splits option.splits)
  done

lemma str_int_digits: "str_int 1 = ''1''" "str_int 5 = ''5''" "str_int 6 = ''6''"
  by code_simp+

lemma fmt_key_env0:
  "fmt_key env0 (PKey 1) = ''1.0''" "fmt_key env0 (PKey 5) = ''5.0''"
  "fmt_key env0 (PKey 6) = ''6.0''"
  by (simp_all add: env0_def str_int_digits)

text \<open>Two parameters: one figure for each statistic, each with one dashed curve.\<close>

lemma plot_2param_stats_two:
  "\<exists>st'. plot_2param env0 ''V'' stats_two [''rho'', ''eta''] ''out'' plotter0 = Done st'
     \<and> map fst (files (surf st'))
         = [''out/V_rho1.0_eta_vs_avg_abs_vel.png'', ''out/V_rho1.0_eta_vs_std_angle.png'',
            ''out/V_rho1.0_eta_vs_std_dist_cmass.png'', ''out/V_rho1.0_eta_vs_psi_cmass.png'']
     \<and> take 1 (snd (hd (files (surf st'))))
         = [Line [Num 1, Num 2] [Num 3, Num 4]
              (noprops\<lparr>linestyle := Some ''--'', marker := Some ''.'',
                 colour := Some (0, 0, 0)\<rparr>)]
     \<and> axes (surf st') = []"
  by (simp add: plot_2param_def stats_two_def four_def titles_def labels_def
      dict_keys_def subscript_def lookup_def node_mean_def plt_plot_def plotter0_def
      fmt_key_env0 Let_def draw_def plt_suptitle_def plt_savefig_def plt_cla_def
      empty_surface_def xcoord_def ycoord_def next_marker_def markers_def env0_def
      str_int_digits noprops_def figure_texts_def bk_ok_def)

text \<open>
  Three parameters, every value of the second with every value of the third: one
  figure for each statistic and value of the first parameter, with one dashed curve
  over the values of the second parameter for each value of the third.
\<close>

lemma plot_3param_stats_even:
  "\<exists>st'. plot_3param env0 ''V'' stats_even [''rho'', ''eta'', ''r''] ''out'' plotter0 = Done st'
     \<and> map fst (files (surf st'))
         = [''out/V_rho1.0_eta_r_vs_avg_abs_vel.png'', ''out/V_rho1.0_eta_r_vs_std_angle.png'',
            ''out/V_rho1.0_eta_r_vs_std_dist_cmass.png'', ''out/V_rho1.0_eta_r_vs_psi_cmass.png'']
     \<and> take 2 (snd (hd (files (surf st'))))
         = [Line [Num 1, Num 2] [Num 3, Num 7]
              (noprops\<lparr>linestyle := Some ''--'', marker := Some ''.'',
                 colour := Some (0, 0, 0), label := Some ''r = 5.0''\<rparr>),
            Line [Num 1, Num 2] [Num 4, Num 8]
              (noprops\<lparr>linestyle := Some ''--'', marker := Some ''+'',
                 colour := Some (0, 0, 0), label := Some ''r = 6.0''\<rparr>)]
     \<and> axes (surf st') = []"
  by (simp add: plot_3param_def curve_3param_def stats_even_def four_def titles_def labels_def
      dict_keys_def subscript_def lookup_def node_mean_def plt_plot_def plotter0_def
      fmt_key_env0 Let_def draw_def plt_suptitle_def plt_savefig_def plt_cla_def
      empty_surface_def xcoord_def ycoord_def next_marker_def markers_def env0_def
      List.map_filter_def str_int_digits noprops_def figure_texts_def bk_ok_def)




subsection \<open>Three parameters on an uneven grid\<close>

lemma fs_uneven_models:
  "find_models fs_uneven ''in'' ''V''
     = Inr [(''V1'', flock_run [(''rho'', 1), (''eta'', 1), (''r'', 5), (''v'', 1)]
                       [0, 0, 0, 0, 0, 0, 0, 0, 0, 0, 3, 3] [0, 0, 0, 0, 0, 0, 0, 0, 0, 0, 3, 3]),
            (''V2'', flock_run [(''rho'', 1), (''eta'', 2), (''r'', 6), (''v'', 1)]
                       [0, 0, 0, 0, 0, 0, 0, 0, 0, 0, 4, 4] [0, 0, 0, 0, 0, 0, 0, 0, 0, 0, 4, 4])]"
  by (simp add: find_models_def fs_uneven_def path_join_def sublist_code)

lemma uneven_names:
  "batch_names [(''V1'', m1), (''V2'', m2)] = [''V1'', ''V2'']"
  "exp_in_batch [(''V1'', m1), (''V2'', m2)] ''V1'' = [''V1'']"
  "exp_in_batch [(''V1'', m1), (''V2'', m2)] ''V2'' = [''V2'']"
  by (simp_all add: batch_names_def exp_in_batch_def sublist_code)

lemma uneven_count: "batch_count [''V1''] = Inr 1" "batch_count [''V2''] = Inr 1"
  by (simp_all add: batch_count_def run_index_def)

lemma uneven_exp_stats:
  "exp_stats an0 (flock_run [(''rho'', 1), (''eta'', 1), (''r'', 5), (''v'', 1)]
                       [0, 0, 0, 0, 0, 0, 0, 0, 0, 0, 3, 3] [0, 0, 0, 0, 0, 0, 0, 0, 0, 0, 3, 3]) 10
     = Inr [(''cmass'', [3, 3]), (''std_dist_cmass'', [3, 3]), (''avg_abs_vel'', [3, 3]),
            (''std_angle'', [3, 3]), (''psi_cmass'', [1])]"
  "exp_stats an0 (flock_run [(''rho'', 1), (''eta'', 2), (''r'', 6), (''v'', 1)]
                       [0, 0, 0, 0, 0, 0, 0, 0, 0, 0, 4, 4] [0, 0, 0, 0, 0, 0, 0, 0, 0, 0, 4, 4]) 10
     = Inr [(''cmass'', [4, 4]), (''std_dist_cmass'', [4, 4]), (''avg_abs_vel'', [4, 4]),
            (''std_angle'', [4, 4]), (''psi_cmass'', [1])]"
  by (simp_all add: exp_stats_def an0_def flock_run_def slice_idx_def lookup_def dict_union_def
      Let_def)

lemma uneven_aggregate:
  "aggregate_model_stats an0
     [(''V1'', flock_run [(''rho'', 1), (''eta'', 1), (''r'', 5), (''v'', 1)]
                       [0, 0, 0, 0, 0, 0, 0, 0, 0, 0, 3, 3] [0, 0, 0, 0, 0, 0, 0, 0, 0, 0, 3, 3]),
      (''V2'', flock_run [(''rho'', 1), (''eta'', 2), (''r'', 6), (''v'', 1)]
                       [0, 0, 0, 0, 0, 0, 0, 0, 0, 0, 4, 4] [0, 0, 0, 0, 0, 0, 0, 0, 0, 0, 4, 4])]
     [''rho'', ''eta'', ''r''] (map fst titles) 10
   = Inr (Dict [(PKey 1,
           Dict [(PKey 1, Dict [(PKey 5,
                    Dict [(SKey ''avg_abs_vel'', Val (Some 3)), (SKey ''std_angle'', Val (Some 3)),
                          (SKey ''std_dist_cmass'', Val (Some 3)),
                          (SKey ''psi_cmass'', Val (Some 1))])]),
                 (PKey 2, Dict [(PKey 6,
                    Dict [(SKey ''avg_abs_vel'', Val (Some 4)), (SKey ''std_angle'', Val (Some 4)),
                          (SKey ''std_dist_cmass'', Val (Some 4)),
                          (SKey ''psi_cmass'', Val (Some 1))])])])])"
  by (simp add: aggregate_model_stats_def process_batch_def model_params_def uneven_names
      uneven_count uneven_exp_stats titles_keys Let_def flock_run_sel lookup_def
      accumulate_def divide_def np_mean_def fdiv_def)

text \<open>
  Claim C4. With three parameters \<^verbatim>\<open>plot_3param\<close> draws, for every statistic and value
  of the first parameter, one curve for each value of the third over the values of the
  second, and saves one figure. The code does not where the values of the second
  parameter do not all have that value of the third: it leaves those out of the
  ordinates and not of the abscissas. The command run on two experiments, one with
  \<open>eta = 1\<close> and \<open>r = 5\<close>, one with \<open>eta = 2\<close> and \<open>r = 6\<close>, raises ValueError at its
  first curve and saves no figure.
\<close>

theorem plot_3param_uneven_grid_raises:
  "plot_results env0 an0 fs_uneven ''in'' ''out'' ''V'' [''rho'', ''eta'', ''r''] plotter0
     = Raise ValueError
         (plotter0\<lparr>surf := empty_surface\<lparr>styles := [''figure.figsize = [10, 7]'']\<rparr>,
                    rolls := 1\<rparr>)
   \<and> files (surf (after (plot_results env0 an0 fs_uneven ''in'' ''out'' ''V''
                          [''rho'', ''eta'', ''r''] plotter0))) = []"
proof -
  have "plot_results env0 an0 fs_uneven ''in'' ''out'' ''V'' [''rho'', ''eta'', ''r''] plotter0
     = Raise ValueError
         (plotter0\<lparr>surf := empty_surface\<lparr>styles := [''figure.figsize = [10, 7]'']\<rparr>,
                    rolls := 1\<rparr>)"
    by (simp add: plot_results_def fs_uneven_models uneven_aggregate)
       (simp add: plot_3param_def curve_3param_def titles_def labels_def
          dict_keys_def subscript_def lookup_def node_mean_def plt_plot_def plotter0_def
          env0_def List.map_filter_def Let_def plt_style_use_def empty_surface_def)
  then show ?thesis
    by (simp add: plotter0_def empty_surface_def)
qed

end
